theory Spec2Isabelle
  imports Main "HOL-Library.Word"
begin

unbundle bit_operations_syntax

section \<open>Data model\<close>

text \<open>
  The emulator keeps its whole state in C globals and in the \<open>CPU\<close> and \<open>PPU\<close> structs
  (\<open>hardware/cpu.h\<close>, \<open>hardware/ppu.h\<close>, \<open>hardware/memory.h\<close>, \<open>hardware/timer.h\<close>,
  \<open>hardware/joypad.h\<close>). \<open>uint8_t\<close> and \<open>uint16_t\<close> are words of that width,
  \<open>size_t\<close> is a 64-bit word (the makefile targets a 64-bit host), and the \<open>int\<close> cycle
  counts that the handlers return (at most 24 per instruction, summed up to one frame
  of about 70224) are integers, converted to \<open>size_t\<close> modulo \<open>2^64\<close> where the C code
  adds them to a counter.
\<close>

type_synonym u8 = "8 word"
type_synonym u16 = "16 word"
type_synonym size_t = "64 word"

record CPU =
  AF :: u16
  BC :: u16
  DE :: u16
  HL :: u16
  SP :: u16
  PC :: u16
  running :: bool
  halted :: bool
  halt_bug :: bool
  IME :: bool

datatype PPU_MODE = MODE_0_HBLANK | MODE_1_VBLANK | MODE_2_OAM_SCAN | MODE_3_DRAWING

text \<open>The value of each enumerator, as C numbers them.\<close>

fun mode_num :: "PPU_MODE \<Rightarrow> u8" where
  "mode_num MODE_0_HBLANK = 0"
| "mode_num MODE_1_VBLANK = 1"
| "mode_num MODE_2_OAM_SCAN = 2"
| "mode_num MODE_3_DRAWING = 3"

text \<open>
  Of the \<open>PPU\<close> struct, \<open>visible_objects\<close>, \<open>visible_objects_counter\<close> and the
  \<open>process_frame_buffer\<close> callback are left out: they are written by \<open>ppu_oam_scan\<close> and
  read by \<open>ppu_scanline\<close> only, and neither function writes \<open>memory\<close> or the three fields
  kept here.
\<close>

record PPU =
  mode :: PPU_MODE
  cycle_counter :: size_t
  ly :: u8

record TIMER =
  div_cycle_counter :: size_t
  tima_cycle_counter :: size_t

text \<open>\<open>dma.running\<close> and \<open>dma.cycles\<close> of \<open>struct DMA\<close>.\<close>

record DMA =
  dma_running :: bool
  dma_cycles :: size_t

record JOYPAD =
  joy_start :: bool
  joy_select :: bool
  joy_b :: bool
  joy_a :: bool
  joy_down :: bool
  joy_up :: bool
  joy_left :: bool
  joy_right :: bool

text \<open>
  The globals of the program. \<open>memory\<close> is the array \<open>uint8_t memory[65536]\<close>, indexed by
  a 16-bit address; \<open>boot\<close> is \<open>uint8_t boot[256]\<close>. \<open>DEBUG_TEST_LOG\<close> records whether the
  macro of that name was defined at compile time (the makefile's \<open>all\<close> and \<open>test\<close> targets
  define it, \<open>release\<close> does not). \<open>cycles_this_frame\<close> is the local of that name in
  \<open>main\<close>, and \<open>serial_out\<close> collects the bytes that \<open>main\<close> prints from the serial
  registers.
\<close>

record machine =
  cpu :: CPU
  ppu :: PPU
  timer :: TIMER
  dma :: DMA
  joypad :: JOYPAD
  memory :: "u16 \<Rightarrow> u8"
  boot :: "u8 \<Rightarrow> u8"
  boot_rom_enabled :: bool
  DEBUG_TEST_LOG :: bool
  cycles_this_frame :: int
  serial_out :: "u8 list"

abbreviation DIV_REG :: u16 where "DIV_REG \<equiv> 0xFF04"
abbreviation TIMA_REG :: u16 where "TIMA_REG \<equiv> 0xFF05"
abbreviation TMA_REG :: u16 where "TMA_REG \<equiv> 0xFF06"
abbreviation TAC_REG :: u16 where "TAC_REG \<equiv> 0xFF07"
abbreviation IF_REG :: u16 where "IF_REG \<equiv> 0xFF0F"
abbreviation IE_REG :: u16 where "IE_REG \<equiv> 0xFFFF"

section \<open>The bus: \<open>hardware/memory.c\<close>\<close>

definition ppu_get_mode :: "machine \<Rightarrow> u8" where
  "ppu_get_mode s = memory s 0xFF41 AND 0x03"

text \<open>
  \<open>memcpy(dst, src, n)\<close> on the \<open>memory\<close> array: byte \<open>i\<close> of the destination receives
  byte \<open>i\<close> of the source as it was before the call. (The two ranges of the DMA copy
  overlap only when they are the same range.)
\<close>

definition memcpy_mem :: "u16 \<Rightarrow> u16 \<Rightarrow> nat \<Rightarrow> (u16 \<Rightarrow> u8) \<Rightarrow> (u16 \<Rightarrow> u8)" where
  "memcpy_mem dst src n mem =
     fold (\<lambda>i m. m(dst + of_nat i := mem (src + of_nat i))) [0..<n] mem"

text \<open>
  The access gate that \<open>WriteMem\<close> and \<open>ReadMem\<close> share: with the LCD on (bit 7 of
  \<open>LCDC\<close>), VRAM is closed in mode 3 and OAM in modes 2 and 3.
\<close>

definition gated :: "machine \<Rightarrow> u16 \<Rightarrow> bool" where
  "gated s addr =
     (let ppu_mode = ppu_get_mode s; LCDC = memory s 0xFF40 in
      drop_bit 7 LCDC = 1 \<and>
      ((0x8000 \<le> addr \<and> addr \<le> 0x9FFF \<and> ppu_mode = mode_num MODE_3_DRAWING) \<or>
       (0xFE00 \<le> addr \<and> addr \<le> 0xFE9F \<and>
        (ppu_mode = mode_num MODE_2_OAM_SCAN \<or> ppu_mode = mode_num MODE_3_DRAWING))))"

definition WriteMem :: "u16 \<Rightarrow> u8 \<Rightarrow> machine \<Rightarrow> machine" where
  "WriteMem addr data s =
     (if gated s addr then s
      else
        let s1 = (if addr = 0xFF50 then s\<lparr>boot_rom_enabled := False\<rparr> else s);
            s2 = (if addr = 0xFF46
                  then let transfer_source = (ucast data :: u16) * 0x0100 in
                       s1\<lparr>memory := memcpy_mem 0xFE00 transfer_source (40 * 4) (memory s1),
                          dma := \<lparr>dma_running = True, dma_cycles = 0\<rparr>\<rparr>
                  else s1)
        in if addr \<noteq> DIV_REG then s2\<lparr>memory := (memory s2)(addr := data)\<rparr>
           else s2\<lparr>memory := (memory s2)(DIV_REG := 0x00),
                   timer := \<lparr>div_cycle_counter = 0, tima_cycle_counter = 0\<rparr>\<rparr>)"

text \<open>The joypad register as \<open>ReadMem\<close> recomputes it at address \<open>0xFF00\<close>.\<close>

definition read_P1 :: "machine \<Rightarrow> u8" where
  "read_P1 s =
     (let j = joypad s;
          P1 = memory s 0xFF00 OR 0x0F;
          P1 = (if P1 AND 0x10 = 0 then
                  (let P1 = (if joy_right j then P1 AND NOT 0x01 else P1);
                       P1 = (if joy_left j then P1 AND NOT 0x02 else P1);
                       P1 = (if joy_up j then P1 AND NOT 0x04 else P1);
                       P1 = (if joy_down j then P1 AND NOT 0x08 else P1)
                   in P1)
                else P1);
          P1 = (if P1 AND 0x20 = 0 then
                  (let P1 = (if joy_a j then P1 AND NOT 0x01 else P1);
                       P1 = (if joy_b j then P1 AND NOT 0x02 else P1);
                       P1 = (if joy_select j then P1 AND NOT 0x04 else P1);
                       P1 = (if joy_start j then P1 AND NOT 0x08 else P1)
                   in P1)
                else P1)
      in P1)"

definition ReadMem :: "machine \<Rightarrow> u16 \<Rightarrow> u8" where
  "ReadMem s addr =
     (if dma_running (dma s) \<and> (addr < 0xFF80 \<or> addr > 0xFFFE) then 0xFF
      else if DEBUG_TEST_LOG s \<and> addr = 0xFF44 then 0x90
      else if gated s addr then 0xFF
      else if boot_rom_enabled s \<and> addr < 0x0100 then boot s (ucast addr)
      else if addr = 0xFF00 then read_P1 s
      else memory s addr)"

text \<open>\<open>FetchByte\<close> returns the byte and the machine with \<open>PC\<close> and \<open>halt_bug\<close> updated.\<close>

definition FetchByte :: "machine \<Rightarrow> u8 \<times> machine" where
  "FetchByte s =
     (if halt_bug (cpu s)
      then (ReadMem s (PC (cpu s)), s\<lparr>cpu := (cpu s)\<lparr>halt_bug := False\<rparr>\<rparr>)
      else (ReadMem s (PC (cpu s)), s\<lparr>cpu := (cpu s)\<lparr>PC := PC (cpu s) + 1\<rparr>\<rparr>))"

definition FetchWord :: "machine \<Rightarrow> u16 \<times> machine" where
  "FetchWord s =
     (let (lsb, s1) = FetchByte s;
          (msb, s2) = FetchByte s1
      in (push_bit 8 (ucast msb) OR ucast lsb, s2))"

text \<open>\<open>dma.cycles += cycles\<close> adds an \<open>int\<close> to a \<open>size_t\<close>.\<close>

definition dma_step :: "int \<Rightarrow> machine \<Rightarrow> machine" where
  "dma_step cycles s =
     (if dma_running (dma s)
      then let c = dma_cycles (dma s) + word_of_int cycles in
           s\<lparr>dma := \<lparr>dma_running = \<not> (c \<ge> 640), dma_cycles = c\<rparr>\<rparr>
      else s)"

section \<open>Interrupt service: \<open>handleInterrupts\<close> in \<open>src/gameboy.c\<close>\<close>

text \<open>
  Every handler takes the machine and returns the T-cycles it reports together with the
  machine it leaves behind.
\<close>

definition handleInterrupts :: "machine \<Rightarrow> int \<times> machine" where
  "handleInterrupts s =
     (let IE = ReadMem s IE_REG;
          IF = ReadMem s IF_REG;
          requested = IE AND IF
      in if \<not> IME (cpu s)
         then (0, if requested \<noteq> 0 then s\<lparr>cpu := (cpu s)\<lparr>halted := False\<rparr>\<rparr> else s)
         else if requested = 0 then (0, s)
         else
           let s1 = s\<lparr>cpu := (cpu s)\<lparr>halted := False, IME := False\<rparr>\<rparr>;
               s2 = s1\<lparr>cpu := (cpu s1)\<lparr>SP := SP (cpu s1) - 2\<rparr>\<rparr>;
               s3 = WriteMem (SP (cpu s2)) (ucast (PC (cpu s2) AND 0xFF)) s2;
               s4 = WriteMem (SP (cpu s3) + 1) (ucast (drop_bit 8 (PC (cpu s3)))) s3;
               ack = (\<lambda>msk vec.
                        s4\<lparr>memory := (memory s4)(IF_REG := memory s4 IF_REG AND NOT msk),
                           cpu := (cpu s4)\<lparr>PC := vec\<rparr>\<rparr>)
           in if requested AND 0x01 \<noteq> 0 then (20, ack 0x01 0x0040)
              else if requested AND 0x02 \<noteq> 0 then (20, ack 0x02 0x0048)
              else if requested AND 0x04 \<noteq> 0 then (20, ack 0x04 0x0050)
              else if requested AND 0x08 \<noteq> 0 then (20, ack 0x08 0x0058)
              else if requested AND 0x10 \<noteq> 0 then (20, ack 0x10 0x0060)
              else (20, s4))"

section \<open>Timer: \<open>timer_step\<close> in \<open>hardware/timer.c\<close>\<close>

abbreviation CLOCK_FREQ_HZ :: size_t where "CLOCK_FREQ_HZ \<equiv> 4194304"
abbreviation DIV_INC_FREQ_HZ :: size_t where "DIV_INC_FREQ_HZ \<equiv> 16384"

text \<open>The \<open>switch\<close> on \<open>TAC & 0x03\<close>; the four cases cover every value of the two bits.\<close>

definition tima_inc_rate :: "u8 \<Rightarrow> size_t" where
  "tima_inc_rate TAC =
     (if TAC AND 0x03 = 0 then 4096
      else if TAC AND 0x03 = 1 then 262144
      else if TAC AND 0x03 = 2 then 65536
      else 16384)"

definition tima_threshold :: "u8 \<Rightarrow> size_t" where
  "tima_threshold TAC = CLOCK_FREQ_HZ div tima_inc_rate TAC"

text \<open>The body of the \<open>while\<close> loop, without the subtraction from the counter.\<close>

definition tima_increment :: "(u16 \<Rightarrow> u8) \<Rightarrow> (u16 \<Rightarrow> u8)" where
  "tima_increment mem =
     (let m1 = mem(TIMA_REG := mem TIMA_REG + 1)
      in if m1 TIMA_REG = 0
         then let m2 = m1(TIMA_REG := m1 TMA_REG)
              in m2(IF_REG := m2 IF_REG OR 0x04)
         else m1)"

text \<open>
  The loop \<open>while (timer.tima_cycle_counter >= threshold)\<close>. The threshold is computed
  from \<open>TAC\<close> before the loop and the loop does not write \<open>TAC\<close>, so the loop is given
  the \<open>TAC\<close> byte; the threshold is never 0, which is why the loop ends.
\<close>

function tima_loop :: "u8 \<Rightarrow> size_t \<times> (u16 \<Rightarrow> u8) \<Rightarrow> size_t \<times> (u16 \<Rightarrow> u8)" where
  "tima_loop TAC (cnt, mem) =
     (if cnt \<ge> tima_threshold TAC
      then tima_loop TAC (cnt - tima_threshold TAC, tima_increment mem)
      else (cnt, mem))"
  by pat_completeness auto
termination
proof (relation "measure (\<lambda>(TAC, cnt, mem). unat cnt)")
  show "wf (measure (\<lambda>(TAC, cnt, mem). unat cnt))" by simp
next
  fix TAC :: u8 and cnt :: size_t and mem :: "u16 \<Rightarrow> u8"
  assume le: "tima_threshold TAC \<le> cnt"
  have pos: "0 < unat (tima_threshold TAC)"
    by (simp add: tima_threshold_def tima_inc_rate_def)
  have "unat (cnt - tima_threshold TAC) = unat cnt - unat (tima_threshold TAC)"
    using le by (simp add: unat_sub)
  moreover have "unat (tima_threshold TAC) \<le> unat cnt"
    using le by (simp add: word_le_nat_alt)
  ultimately show "((TAC, cnt - tima_threshold TAC, tima_increment mem), (TAC, cnt, mem))
      \<in> measure (\<lambda>(TAC, cnt, mem). unat cnt)"
    using pos by simp
qed

declare tima_loop.simps [simp del]

text \<open>
  \<open>timer_step\<close>, first half: both counters advance, and \<open>DIV\<close> takes the whole
  multiples of 256 T-cycles. \<open>memory[DIV_REG] += increment\<close> truncates the \<open>size_t\<close> to a
  byte.
\<close>

definition timer_div_step :: "int \<Rightarrow> machine \<Rightarrow> machine" where
  "timer_div_step Tcycles s =
     (let div_cnt = div_cycle_counter (timer s) + word_of_int Tcycles;
          tima_cnt = tima_cycle_counter (timer s) + word_of_int Tcycles
      in if div_cnt \<ge> CLOCK_FREQ_HZ div DIV_INC_FREQ_HZ
         then let increment = div_cnt div (CLOCK_FREQ_HZ div DIV_INC_FREQ_HZ)
              in s\<lparr>timer := \<lparr>div_cycle_counter = div_cnt mod (CLOCK_FREQ_HZ div DIV_INC_FREQ_HZ),
                               tima_cycle_counter = tima_cnt\<rparr>,
                   memory := (memory s)(DIV_REG := memory s DIV_REG + ucast increment)\<rparr>
         else s\<lparr>timer := \<lparr>div_cycle_counter = div_cnt, tima_cycle_counter = tima_cnt\<rparr>\<rparr>)"

text \<open>\<open>timer_step\<close>: the first half, then the \<open>TIMA\<close> loop when bit 2 of \<open>TAC\<close> is set.\<close>

definition timer_step :: "int \<Rightarrow> machine \<Rightarrow> machine" where
  "timer_step Tcycles s =
     (let s1 = timer_div_step Tcycles s;
          TAC = memory s1 TAC_REG
      in if TAC AND 0x04 \<noteq> 0
         then let (tima_cnt, mem) = tima_loop TAC (tima_cycle_counter (timer s1), memory s1)
              in s1\<lparr>timer := (timer s1)\<lparr>tima_cycle_counter := tima_cnt\<rparr>, memory := mem\<rparr>
         else s1)"

section \<open>PPU state machine: \<open>ppu_step\<close> in \<open>hardware/ppu.c\<close>\<close>

definition ppu_set_mode :: "PPU_MODE \<Rightarrow> machine \<Rightarrow> machine" where
  "ppu_set_mode m s =
     s\<lparr>ppu := (ppu s)\<lparr>mode := m\<rparr>,
       memory := (memory s)(0xFF41 := (memory s 0xFF41 AND 0xFC) OR mode_num m)\<rparr>"

text \<open>
  \<open>ppu_scanline\<close> reads \<open>memory\<close> and calls the frame-buffer callback; \<open>ppu_oam_scan\<close>
  fills \<open>visible_objects\<close>. On the part of the state that this model keeps, both are the
  identity.
\<close>

definition ppu_scanline :: "machine \<Rightarrow> machine" where
  "ppu_scanline s = s"

definition ppu_oam_scan :: "machine \<Rightarrow> machine" where
  "ppu_oam_scan s = s"

text \<open>\<open>memory[IF_REG] |= msk\<close>.\<close>

definition request_interrupt :: "u8 \<Rightarrow> machine \<Rightarrow> machine" where
  "request_interrupt msk s = s\<lparr>memory := (memory s)(IF_REG := memory s IF_REG OR msk)\<rparr>"

definition sub_cycles :: "size_t \<Rightarrow> machine \<Rightarrow> machine" where
  "sub_cycles n s = s\<lparr>ppu := (ppu s)\<lparr>cycle_counter := cycle_counter (ppu s) - n\<rparr>\<rparr>"

text \<open>\<open>ppu->ly++; memory[0xFF44] = ppu->ly;\<close>\<close>

definition next_line :: "machine \<Rightarrow> machine" where
  "next_line s =
     (let l = ly (ppu s) + 1
      in s\<lparr>ppu := (ppu s)\<lparr>ly := l\<rparr>, memory := (memory s)(0xFF44 := l)\<rparr>)"

definition ppu_step :: "int \<Rightarrow> machine \<Rightarrow> machine" where
  "ppu_step cycles s0 =
     (let s = s0\<lparr>ppu := (ppu s0)\<lparr>cycle_counter := cycle_counter (ppu s0) + word_of_int cycles\<rparr>\<rparr>;
          STAT = memory s 0xFF41
      in case mode (ppu s) of
           MODE_2_OAM_SCAN \<Rightarrow>
             if cycle_counter (ppu s) \<ge> 80
             then ppu_set_mode MODE_3_DRAWING (sub_cycles 80 s)
             else s
         | MODE_3_DRAWING \<Rightarrow>
             if cycle_counter (ppu s) \<ge> 172
             then let s1 = ppu_set_mode MODE_0_HBLANK (sub_cycles 172 s);
                      s2 = (if STAT AND 0x08 \<noteq> 0 then request_interrupt 0x02 s1 else s1)
                  in ppu_scanline s2
             else s
         | MODE_0_HBLANK \<Rightarrow>
             if cycle_counter (ppu s) \<ge> 204
             then let s1 = next_line (sub_cycles 204 s);
                      LYC = memory s1 0xFF45;
                      (STAT, s2) =
                        (if ly (ppu s1) = LYC
                         then let s' = s1\<lparr>memory := (memory s1)(0xFF41 := memory s1 0xFF41 OR 0x04)\<rparr>;
                                  STAT = memory s' 0xFF41
                              in (STAT, if STAT AND 0x40 \<noteq> 0 then request_interrupt 0x02 s' else s')
                         else let s' = s1\<lparr>memory := (memory s1)(0xFF41 := memory s1 0xFF41 AND NOT 0x04)\<rparr>
                              in (memory s' 0xFF41, s'))
                  in if ly (ppu s2) = 144
                     then let s3 = ppu_set_mode MODE_1_VBLANK s2;
                              s4 = (if STAT AND 0x10 \<noteq> 0 then request_interrupt 0x02 s3 else s3)
                          in request_interrupt 0x1 s4
                     else let s3 = ppu_oam_scan (ppu_set_mode MODE_2_OAM_SCAN s2)
                          in if STAT AND 0x20 \<noteq> 0 then request_interrupt 0x02 s3 else s3
             else s
         | MODE_1_VBLANK \<Rightarrow>
             if cycle_counter (ppu s) \<ge> 456
             then let s1 = next_line (sub_cycles 456 s)
                  in if ly (ppu s1) > 153
                     then let s2 = s1\<lparr>ppu := (ppu s1)\<lparr>ly := 0\<rparr>,
                                      memory := (memory s1)(0xFF44 := 0)\<rparr>;
                              s3 = ppu_oam_scan (ppu_set_mode MODE_2_OAM_SCAN s2)
                          in if STAT AND 0x20 \<noteq> 0 then request_interrupt 0x02 s3 else s3
                     else s1
             else s)"

section \<open>CPU handlers of the modular build: \<open>hardware/cpu.c\<close>\<close>

text \<open>
  The low byte of \<open>AF\<close> is the flag register: bit 7 is Z, bit 6 is N, bit 5 is H and
  bit 4 is C.
\<close>

definition flag_Z :: "CPU \<Rightarrow> bool" where "flag_Z c = (AF c AND 0x80 \<noteq> 0)"
definition flag_N :: "CPU \<Rightarrow> bool" where "flag_N c = (AF c AND 0x40 \<noteq> 0)"
definition flag_H :: "CPU \<Rightarrow> bool" where "flag_H c = (AF c AND 0x20 \<noteq> 0)"
definition flag_C :: "CPU \<Rightarrow> bool" where "flag_C c = (AF c AND 0x10 \<noteq> 0)"

text \<open>The accumulator is the high byte of \<open>AF\<close>.\<close>

definition reg_A :: "CPU \<Rightarrow> u8" where "reg_A c = ucast (drop_bit 8 (AF c))"

type_synonym Instruction = "machine \<Rightarrow> int \<times> machine"

definition NOP :: Instruction where
  "NOP s = (4, s)"

definition HALT :: Instruction where
  "HALT s =
     (let IF = memory s IF_REG;
          IE = memory s IE_REG
      in if \<not> IME (cpu s) \<and> IE AND IF \<noteq> 0
         then (4, s\<lparr>cpu := (cpu s)\<lparr>halt_bug := True\<rparr>\<rparr>)
         else if IE AND IF = 0 then (4, s\<lparr>cpu := (cpu s)\<lparr>halted := True\<rparr>\<rparr>)
         else (4, s))"

text \<open>
  The \<open>switch\<close> of \<open>ADD_HL_rr\<close> on the opcode. It has no \<open>default\<close>: for any other
  opcode byte the operand \<open>n\<close> is read uninitialised, which is \<open>None\<close> here.
\<close>

definition ADD_HL_rr_operand :: "u8 \<Rightarrow> CPU \<Rightarrow> u16 option" where
  "ADD_HL_rr_operand opcode c =
     (if opcode = 0x09 then Some (BC c)
      else if opcode = 0x19 then Some (DE c)
      else if opcode = 0x29 then Some (HL c)
      else if opcode = 0x39 then Some (SP c)
      else None)"

text \<open>
  \<open>uint32_t result = cpu->HL + n\<close> is computed in \<open>int\<close> and cannot overflow; the carry
  test is \<open>result > IE_REG\<close>, and \<open>IE_REG\<close> is \<open>0xFFFF\<close>.
\<close>

definition ADD_HL_rr :: "machine \<Rightarrow> (int \<times> machine) option" where
  "ADD_HL_rr s =
     (let c = cpu s;
          opcode = ReadMem s (PC c - 1)
      in case ADD_HL_rr_operand opcode c of
           None \<Rightarrow> None
         | Some n \<Rightarrow>
             let result = unat (HL c) + unat n;
                 af = AF c AND NOT 0x40;
                 af = (if result > unat IE_REG then af OR 0x10 else af AND NOT 0x10);
                 af = (if unat (HL c AND 0x0FFF) + unat (n AND 0x0FFF) > 0x0FFF
                       then af OR 0x20 else af AND NOT 0x20)
             in Some (8, s\<lparr>cpu := c\<lparr>AF := af, HL := of_nat result\<rparr>\<rparr>))"

text \<open>
  \<open>int8_t n = (int8_t)FetchByte(cpu)\<close>; \<open>cpu->SP + n\<close> is computed in \<open>int\<close> and stored
  into a \<open>uint16_t\<close>.
\<close>

definition ADD_SP_s8 :: Instruction where
  "ADD_SP_s8 s0 =
     (let (b, s) = FetchByte s0;
          n = sint b;
          c = cpu s;
          result = (word_of_int (uint (SP c) + n) :: u16);
          af = AF c AND 0xFF00;
          af = (if uint (SP c AND 0x0F) + uint (b AND 0x0F) > 0x0F then af OR 0x20 else af);
          af = (if uint (SP c AND 0xFF) + uint (b AND 0xFF) > 0xFF then af OR 0x10 else af)
      in (16, s\<lparr>cpu := c\<lparr>AF := af, SP := result\<rparr>\<rparr>))"

subsection \<open>\<open>PUSH rr\<close> and \<open>POP rr\<close>\<close>

text \<open>
  The eight handlers have the text of the single-file build and go through the bus of
  \<open>hardware/memory.c\<close>. \<open>push_byte\<close> is \<open>WriteMem(--cpu->SP, data)\<close> and \<open>pop_byte\<close> is
  \<open>ReadMem(cpu->SP++)\<close>.
\<close>

definition push_byte :: "u8 \<Rightarrow> machine \<Rightarrow> machine" where
  "push_byte data s =
     (let s1 = s\<lparr>cpu := (cpu s)\<lparr>SP := SP (cpu s) - 1\<rparr>\<rparr>
      in WriteMem (SP (cpu s1)) data s1)"

definition pop_byte :: "machine \<Rightarrow> u8 \<times> machine" where
  "pop_byte s = (ReadMem s (SP (cpu s)), s\<lparr>cpu := (cpu s)\<lparr>SP := SP (cpu s) + 1\<rparr>\<rparr>)"

definition PUSH_BC :: Instruction where
  "PUSH_BC s =
     (let s1 = push_byte (ucast (drop_bit 8 (BC (cpu s)))) s;
          s2 = push_byte (ucast (BC (cpu s1) AND 0x00FF)) s1
      in (16, s2))"

definition PUSH_DE :: Instruction where
  "PUSH_DE s =
     (let s1 = push_byte (ucast (drop_bit 8 (DE (cpu s)))) s;
          s2 = push_byte (ucast (DE (cpu s1) AND 0x00FF)) s1
      in (16, s2))"

definition PUSH_HL :: Instruction where
  "PUSH_HL s =
     (let s1 = push_byte (ucast (drop_bit 8 (HL (cpu s)))) s;
          s2 = push_byte (ucast (HL (cpu s1) AND 0x00FF)) s1
      in (16, s2))"

definition PUSH_AF :: Instruction where
  "PUSH_AF s =
     (let s1 = push_byte (ucast (drop_bit 8 (AF (cpu s)))) s;
          s2 = push_byte (ucast (AF (cpu s1) AND 0x00F0)) s1
      in (16, s2))"

definition POP_BC :: Instruction where
  "POP_BC s =
     (let (lo, s1) = pop_byte s;
          s2 = s1\<lparr>cpu := (cpu s1)\<lparr>BC := ucast lo\<rparr>\<rparr>;
          (hi, s3) = pop_byte s2;
          s4 = s3\<lparr>cpu := (cpu s3)\<lparr>BC := (BC (cpu s3) AND 0x00FF) OR push_bit 8 (ucast hi)\<rparr>\<rparr>
      in (12, s4))"

definition POP_DE :: Instruction where
  "POP_DE s =
     (let (lo, s1) = pop_byte s;
          s2 = s1\<lparr>cpu := (cpu s1)\<lparr>DE := ucast lo\<rparr>\<rparr>;
          (hi, s3) = pop_byte s2;
          s4 = s3\<lparr>cpu := (cpu s3)\<lparr>DE := (DE (cpu s3) AND 0x00FF) OR push_bit 8 (ucast hi)\<rparr>\<rparr>
      in (12, s4))"

definition POP_HL :: Instruction where
  "POP_HL s =
     (let (lo, s1) = pop_byte s;
          s2 = s1\<lparr>cpu := (cpu s1)\<lparr>HL := ucast lo\<rparr>\<rparr>;
          (hi, s3) = pop_byte s2;
          s4 = s3\<lparr>cpu := (cpu s3)\<lparr>HL := (HL (cpu s3) AND 0x00FF) OR push_bit 8 (ucast hi)\<rparr>\<rparr>
      in (12, s4))"

definition POP_AF :: Instruction where
  "POP_AF s =
     (let (flags, s1) = pop_byte s;
          (a, s2) = pop_byte s1
      in (12, s2\<lparr>cpu := (cpu s2)\<lparr>AF := push_bit 8 (ucast a) OR ucast (flags AND 0xF0)\<rparr>\<rparr>))"

section \<open>The tick loop: the inner \<open>while\<close> of \<open>main\<close> in \<open>src/gameboy.c\<close>\<close>

text \<open>
  The serial debug tap at the end of the loop body (\<open>memory[0xFF01] >= 0\<close> is always
  true of a \<open>uint8_t\<close>).
\<close>

definition serial_tap :: "machine \<Rightarrow> machine" where
  "serial_tap s =
     (if memory s 0xFF01 \<le> 127 \<and> memory s 0xFF02 = 0x81
      then s\<lparr>serial_out := serial_out s @ [memory s 0xFF01],
             memory := (memory s)(0xFF02 := 0)\<rparr>
      else s)"

text \<open>
  The first half of the loop body, up to the value of \<open>cycles_executed\<close>. The dispatch
  table \<open>instruction_table\<close> is a parameter. (The \<open>logEmulatorSatus\<close> call under
  \<open>DEBUG_TEST_LOG\<close> only writes to the log file.)
\<close>

definition cpu_cycle :: "(u8 \<Rightarrow> Instruction) \<Rightarrow> machine \<Rightarrow> int \<times> machine" where
  "cpu_cycle instruction_table s =
     (let cycles_executed = 0;
          (c, s1) = handleInterrupts s;
          cycles_executed = cycles_executed + c
      in if halted (cpu s1) then (cycles_executed + 4, s1)
         else let (opcode, s2) = FetchByte s1;
                  (cycles_executed, s3) = instruction_table opcode s2
              in (cycles_executed, s3))"

definition tick :: "(u8 \<Rightarrow> Instruction) \<Rightarrow> machine \<Rightarrow> machine" where
  "tick instruction_table s =
     (let (cycles_executed, s1) = cpu_cycle instruction_table s;
          s2 = s1\<lparr>cycles_this_frame := cycles_this_frame s1 + cycles_executed\<rparr>;
          s3 = ppu_step cycles_executed s2;
          s4 = timer_step cycles_executed s3;
          s5 = dma_step cycles_executed s4
      in serial_tap s5)"

section \<open>The single-file build: \<open>gameboy.c\<close> (\<open>src/unnamed/part_000\<close>)\<close>

text \<open>
  The repository also holds the emulator as one file, built by the first makefile. Its
  bus and its CPU handlers have the names of the modular build; the copies modelled here
  carry the suffix \<open>_mono\<close>. Its \<open>CPU\<close> struct has no \<open>halt_bug\<close> field and it has no DMA
  state: those fields of the record are never touched by the \<open>_mono\<close> functions.
  \<open>ppu_get_mode\<close>, the two access gates and the joypad read are the same text in both.
\<close>

definition ReadMem_mono :: "machine \<Rightarrow> u16 \<Rightarrow> u8" where
  "ReadMem_mono s addr =
     (if gated s addr then 0xFF
      else if boot_rom_enabled s \<and> addr < 0x0100 then boot s (ucast addr)
      else if addr = 0xFF00 then read_P1 s
      else memory s addr)"

definition WriteMem_mono :: "u16 \<Rightarrow> u8 \<Rightarrow> machine \<Rightarrow> machine" where
  "WriteMem_mono addr data s =
     (if gated s addr then s
      else
        let s1 = (if addr = 0xFF50 then s\<lparr>boot_rom_enabled := False\<rparr> else s)
        in if addr \<noteq> 0xFF04 then s1\<lparr>memory := (memory s1)(addr := data)\<rparr>
           else s1\<lparr>memory := (memory s1)(addr := 0x00)\<rparr>)"

definition FetchByte_mono :: "machine \<Rightarrow> u8 \<times> machine" where
  "FetchByte_mono s = (ReadMem_mono s (PC (cpu s)), s\<lparr>cpu := (cpu s)\<lparr>PC := PC (cpu s) + 1\<rparr>\<rparr>)"

text \<open>\<open>WriteMem(--cpu->SP, data)\<close>.\<close>

definition push_byte_mono :: "u8 \<Rightarrow> machine \<Rightarrow> machine" where
  "push_byte_mono data s =
     (let s1 = s\<lparr>cpu := (cpu s)\<lparr>SP := SP (cpu s) - 1\<rparr>\<rparr>
      in WriteMem_mono (SP (cpu s1)) data s1)"

text \<open>\<open>ReadMem(cpu->SP++)\<close>.\<close>

definition pop_byte_mono :: "machine \<Rightarrow> u8 \<times> machine" where
  "pop_byte_mono s = (ReadMem_mono s (SP (cpu s)), s\<lparr>cpu := (cpu s)\<lparr>SP := SP (cpu s) + 1\<rparr>\<rparr>)"

definition PUSH_BC_mono :: Instruction where
  "PUSH_BC_mono s =
     (let s1 = push_byte_mono (ucast (drop_bit 8 (BC (cpu s)))) s;
          s2 = push_byte_mono (ucast (BC (cpu s1) AND 0x00FF)) s1
      in (16, s2))"

definition PUSH_DE_mono :: Instruction where
  "PUSH_DE_mono s =
     (let s1 = push_byte_mono (ucast (drop_bit 8 (DE (cpu s)))) s;
          s2 = push_byte_mono (ucast (DE (cpu s1) AND 0x00FF)) s1
      in (16, s2))"

definition PUSH_HL_mono :: Instruction where
  "PUSH_HL_mono s =
     (let s1 = push_byte_mono (ucast (drop_bit 8 (HL (cpu s)))) s;
          s2 = push_byte_mono (ucast (HL (cpu s1) AND 0x00FF)) s1
      in (16, s2))"

definition PUSH_AF_mono :: Instruction where
  "PUSH_AF_mono s =
     (let s1 = push_byte_mono (ucast (drop_bit 8 (AF (cpu s)))) s;
          s2 = push_byte_mono (ucast (AF (cpu s1) AND 0x00F0)) s1
      in (16, s2))"

definition POP_BC_mono :: Instruction where
  "POP_BC_mono s =
     (let (lo, s1) = pop_byte_mono s;
          s2 = s1\<lparr>cpu := (cpu s1)\<lparr>BC := ucast lo\<rparr>\<rparr>;
          (hi, s3) = pop_byte_mono s2;
          s4 = s3\<lparr>cpu := (cpu s3)\<lparr>BC := (BC (cpu s3) AND 0x00FF) OR push_bit 8 (ucast hi)\<rparr>\<rparr>
      in (12, s4))"

definition POP_DE_mono :: Instruction where
  "POP_DE_mono s =
     (let (lo, s1) = pop_byte_mono s;
          s2 = s1\<lparr>cpu := (cpu s1)\<lparr>DE := ucast lo\<rparr>\<rparr>;
          (hi, s3) = pop_byte_mono s2;
          s4 = s3\<lparr>cpu := (cpu s3)\<lparr>DE := (DE (cpu s3) AND 0x00FF) OR push_bit 8 (ucast hi)\<rparr>\<rparr>
      in (12, s4))"

definition POP_HL_mono :: Instruction where
  "POP_HL_mono s =
     (let (lo, s1) = pop_byte_mono s;
          s2 = s1\<lparr>cpu := (cpu s1)\<lparr>HL := ucast lo\<rparr>\<rparr>;
          (hi, s3) = pop_byte_mono s2;
          s4 = s3\<lparr>cpu := (cpu s3)\<lparr>HL := (HL (cpu s3) AND 0x00FF) OR push_bit 8 (ucast hi)\<rparr>\<rparr>
      in (12, s4))"

definition POP_AF_mono :: Instruction where
  "POP_AF_mono s =
     (let (flags, s1) = pop_byte_mono s;
          (a, s2) = pop_byte_mono s1
      in (12, s2\<lparr>cpu := (cpu s2)\<lparr>AF := push_bit 8 (ucast a) OR ucast (flags AND 0xF0)\<rparr>\<rparr>))"

text \<open>
  \<open>ADD_HL_rr\<close> of the single-file build: \<open>uint16_t result = cpu->HL + n\<close> truncates the
  sum before the carry test \<open>result > 0xFFFF\<close>.
\<close>

definition ADD_HL_rr_mono :: "machine \<Rightarrow> (int \<times> machine) option" where
  "ADD_HL_rr_mono s =
     (let c = cpu s;
          opcode = ReadMem_mono s (PC c - 1)
      in case ADD_HL_rr_operand opcode c of
           None \<Rightarrow> None
         | Some n \<Rightarrow>
             let result = (of_nat (unat (HL c) + unat n) :: u16);
                 af = AF c AND NOT 0x40;
                 af = (if unat result > 0xFFFF then af OR 0x10 else af AND NOT 0x10);
                 af = (if unat (HL c AND 0x0FFF) + unat (n AND 0x0FFF) > 0x0FFF
                       then af OR 0x20 else af AND NOT 0x20)
             in Some (8, s\<lparr>cpu := c\<lparr>AF := af, HL := result\<rparr>\<rparr>))"

text \<open>
  \<open>ADD_SP_s8\<close> of the single-file build: \<open>cpu->AF = 0x00\<close>, and the operand of the two
  carry tests is the \<open>int8_t\<close> \<open>n\<close>, promoted to \<open>int\<close> before the mask.
\<close>

definition ADD_SP_s8_mono :: Instruction where
  "ADD_SP_s8_mono s0 =
     (let (b, s) = FetchByte_mono s0;
          n = sint b;
          c = cpu s;
          result = (word_of_int (uint (SP c) + n) :: u16);
          af = 0x00;
          af = (if uint (SP c AND 0x0F) + (n AND 0x0F) > 0x0F then af OR 0x20 else af);
          af = (if uint (SP c AND 0xFF) + (n AND 0xFF) > 0xFF then af OR 0x10 else af)
      in (16, s\<lparr>cpu := c\<lparr>AF := af, SP := result\<rparr>\<rparr>))"

text \<open>\<open>HALT\<close> of the single-file build: the HALT-bug branch is commented out.\<close>

definition HALT_mono :: Instruction where
  "HALT_mono s = (4, s\<lparr>cpu := (cpu s)\<lparr>halted := True\<rparr>\<rparr>)"

section \<open>The first version: \<open>gameboy.c\<close> (\<open>src/gameboy.c\<close>, lines 1 to 2207)\<close>

text \<open>
  \<open>ADD_HL_rr\<close> as the oldest copy in the repository has it: the opcode is read from
  \<open>memory\<close> directly, the carry test is \<open>result > 0xFF\<close> on the truncated sum and the
  half-carry test masks with \<open>0x0F\<close>.
\<close>

definition ADD_HL_rr_v0 :: "machine \<Rightarrow> (int \<times> machine) option" where
  "ADD_HL_rr_v0 s =
     (let c = cpu s;
          opcode = memory s (PC c - 1)
      in case ADD_HL_rr_operand opcode c of
           None \<Rightarrow> None
         | Some n \<Rightarrow>
             let result = (of_nat (unat (HL c) + unat n) :: u16);
                 af = AF c AND NOT 0x40;
                 af = (if unat result > 0xFF then af OR 0x10 else af AND NOT 0x10);
                 af = (if unat (HL c AND 0x0F) + unat (n AND 0x0F) > 0x0F
                       then af OR 0x20 else af AND NOT 0x20)
             in Some (8, s\<lparr>cpu := c\<lparr>AF := af, HL := result\<rparr>\<rparr>))"

section \<open>Power-on state: \<open>InitializePowerOnState\<close> in \<open>src/gameboy.c\<close>\<close>

text \<open>
  The globals start zeroed (C static initialisation), except \<open>boot_rom_enabled = true\<close>.
\<close>

definition zero_machine :: machine where
  "zero_machine =
     \<lparr>cpu = \<lparr>AF = 0, BC = 0, DE = 0, HL = 0, SP = 0, PC = 0,
              running = False, halted = False, halt_bug = False, IME = False\<rparr>,
      ppu = \<lparr>mode = MODE_0_HBLANK, cycle_counter = 0, ly = 0\<rparr>,
      timer = \<lparr>div_cycle_counter = 0, tima_cycle_counter = 0\<rparr>,
      dma = \<lparr>dma_running = False, dma_cycles = 0\<rparr>,
      joypad = \<lparr>joy_start = False, joy_select = False, joy_b = False, joy_a = False,
                 joy_down = False, joy_up = False, joy_left = False, joy_right = False\<rparr>,
      memory = (\<lambda>_. 0),
      boot = (\<lambda>_. 0),
      boot_rom_enabled = True,
      DEBUG_TEST_LOG = False,
      cycles_this_frame = 0,
      serial_out = []\<rparr>"

definition InitializePowerOnState :: "machine \<Rightarrow> machine" where
  "InitializePowerOnState s =
     s\<lparr>cpu := (cpu s)\<lparr>PC := 0x0000, SP := 0x0000, AF := 0x0000, BC := 0x0000,
                       DE := 0x0000, HL := 0x0000,
                       halted := False, running := True, IME := False\<rparr>,
       ppu := (ppu s)\<lparr>mode := MODE_2_OAM_SCAN, cycle_counter := 0, ly := 0\<rparr>,
       memory := (memory s)
         (0xFF00 := 0xCF, TIMA_REG := 0x00, TMA_REG := 0x00, TAC_REG := 0x00,
          0xFF10 := 0x80, 0xFF11 := 0xBF, 0xFF12 := 0xF3,
          0xFF14 := 0xBF, 0xFF16 := 0x3F, 0xFF17 := 0x00,
          0xFF19 := 0xBF, 0xFF1A := 0x7F, 0xFF1B := 0xFF,
          0xFF1C := 0x9F, 0xFF1E := 0xBF, 0xFF20 := 0xFF,
          0xFF21 := 0x00, 0xFF22 := 0x00, 0xFF23 := 0xBF,
          0xFF24 := 0x77, 0xFF25 := 0xF3, 0xFF26 := 0xF1,
          0xFF41 := 0x02, 0xFF42 := 0x00, 0xFF43 := 0x00, 0xFF44 := 0x00,
          0xFF45 := 0x00, 0xFF47 := 0xE4, 0xFF48 := 0xFF, 0xFF49 := 0xFF,
          0xFF4A := 0x00, 0xFF4B := 0x00, IE_REG := 0x00)\<rparr>"

definition power_on :: machine where
  "power_on = InitializePowerOnState zero_machine"

section \<open>Stack slots that read back what is written\<close>

text \<open>The two address ranges that the gate can close.\<close>

definition vram_oam :: "u16 \<Rightarrow> bool" where
  "vram_oam a = ((0x8000 \<le> a \<and> a \<le> 0x9FFF) \<or> (0xFE00 \<le> a \<and> a \<le> 0xFE9F))"

text \<open>
  A stack slot of the single-file build that reads back what is written to it: the
  address is not behind a closed VRAM or OAM gate, is not shadowed by the enabled boot
  ROM, and is neither the joypad register nor \<open>DIV\<close>.
\<close>

definition stack_slot_ok_mono :: "machine \<Rightarrow> u16 \<Rightarrow> bool" where
  "stack_slot_ok_mono s a =
     (\<not> gated s a \<and> \<not> (boot_rom_enabled s \<and> a < 0x0100) \<and> a \<noteq> 0xFF00 \<and> a \<noteq> 0xFF04)"

text \<open>
  A stack slot of the modular build that reads back what is written to it: on top of
  the conditions of the single-file build, the address is not the DMA trigger, is not
  \<open>LY\<close> under the debug override, and is in high RAM if a DMA lockout is active.
\<close>

definition stack_slot_ok :: "machine \<Rightarrow> u16 \<Rightarrow> bool" where
  "stack_slot_ok s a =
     (stack_slot_ok_mono s a \<and> a \<noteq> 0xFF46 \<and> \<not> (DEBUG_TEST_LOG s \<and> a = 0xFF44)
      \<and> (dma_running (dma s) \<longrightarrow> 0xFF80 \<le> a \<and> a \<le> 0xFFFE))"

section \<open>Concrete machines for the examples\<close>

text \<open>Work RAM holds \<open>0x5A\<close> at \<open>0xC003\<close>; everything else is as at power-on.\<close>

definition dma_demo :: machine where
  "dma_demo = power_on\<lparr>memory := (memory power_on)(0xC003 := 0x5A)\<rparr>"

text \<open>
  A halted CPU with \<open>IME\<close> set, no interrupt enabled and none requested
  (\<open>IE = IF = 0\<close>), in the middle of a DMA lockout.
\<close>

definition lockout_demo :: machine where
  "lockout_demo =
     power_on\<lparr>cpu := (cpu power_on)\<lparr>halted := True, IME := True, PC := 0x0150, SP := 0xFFFE\<rparr>,
              dma := \<lparr>dma_running = True, dma_cycles = 8\<rparr>\<rparr>"

text \<open>
  The timer of the spec's first scenario: \<open>TMA = 0xAB\<close>, \<open>TIMA = 0xFE\<close>, \<open>TAC = 0x05\<close>
  (enabled, one increment per 16 T-cycles).
\<close>

definition timer_demo :: machine where
  "timer_demo =
     power_on\<lparr>memory := (memory power_on)(TMA_REG := 0xAB, TIMA_REG := 0xFE, TAC_REG := 0x05)\<rparr>"

text \<open>
  The PPU four T-cycles before the end of the first VBLANK line: \<open>LY = 144\<close>, the
  program has set \<open>LYC = 145\<close>, and \<open>STAT\<close> holds mode 1 with the coincidence bit clear,
  as the HBLANK exit from line 143 leaves it.
\<close>

definition vblank_demo :: machine where
  "vblank_demo =
     power_on\<lparr>ppu := \<lparr>mode = MODE_1_VBLANK, cycle_counter = 452, ly = 144\<rparr>,
              memory := (memory power_on)(0xFF40 := 0x91, 0xFF41 := 0x01, 0xFF44 := 144,
                                          0xFF45 := 145)\<rparr>"

text \<open>
  \<open>ADD HL,BC\<close> (opcode \<open>0x09\<close> at \<open>0x0150\<close>, already fetched) with \<open>HL = 0xFFFF\<close> and
  \<open>BC = 0x0001\<close>; the boot ROM is switched off.
\<close>

definition add_demo :: machine where
  "add_demo =
     power_on\<lparr>boot_rom_enabled := False,
              cpu := (cpu power_on)\<lparr>HL := 0xFFFF, BC := 0x0001, PC := 0x0151\<rparr>,
              memory := (memory power_on)(0x0150 := 0x09)\<rparr>"

text \<open>
  \<open>ADD SP,+8\<close> (opcode \<open>0xE8\<close> at \<open>0x0150\<close>, already fetched, operand \<open>0x08\<close> at
  \<open>0x0151\<close>) with \<open>A = 0x12\<close>, all four flags set and \<open>SP = 0xFFF8\<close>.
\<close>

definition sp_demo :: machine where
  "sp_demo =
     power_on\<lparr>boot_rom_enabled := False,
              cpu := (cpu power_on)\<lparr>AF := 0x12F0, SP := 0xFFF8, PC := 0x0151\<rparr>,
              memory := (memory power_on)(0x0150 := 0xE8, 0x0151 := 0x08)\<rparr>"

text \<open>
  \<open>HALT\<close> (opcode \<open>0x76\<close> at \<open>0x0150\<close>, already fetched) with \<open>IME\<close> clear and the
  VBLANK interrupt both enabled and requested.
\<close>

definition halt_demo :: machine where
  "halt_demo =
     power_on\<lparr>boot_rom_enabled := False,
              cpu := (cpu power_on)\<lparr>PC := 0x0151, SP := 0xFFFE\<rparr>,
              memory := (memory power_on)(0x0150 := 0x76, IE_REG := 0x01, IF_REG := 0x01)\<rparr>"

text \<open>
  An instruction boundary with \<open>IME\<close> set and the VBLANK interrupt enabled and
  requested; the byte at the vector \<open>0x0040\<close> is \<open>0x00\<close>, the opcode of \<open>NOP\<close>.
\<close>

definition irq_demo :: machine where
  "irq_demo =
     power_on\<lparr>boot_rom_enabled := False,
              cpu := (cpu power_on)\<lparr>PC := 0x0150, SP := 0xFFFE, IME := True\<rparr>,
              memory := (memory power_on)(0x0040 := 0x00, IE_REG := 0x01, IF_REG := 0x01)\<rparr>"

text \<open>
  The LCD is on and the PPU is in mode 3; the stack pointer is in VRAM in the first
  machine and in work RAM in the second.
\<close>

definition vram_demo :: machine where
  "vram_demo =
     power_on\<lparr>boot_rom_enabled := False,
              cpu := (cpu power_on)\<lparr>BC := 0x1234, SP := 0x9000\<rparr>,
              ppu := (ppu power_on)\<lparr>mode := MODE_3_DRAWING\<rparr>,
              memory := (memory power_on)(0xFF40 := 0x91, 0xFF41 := 0x03)\<rparr>"

definition wram_demo :: machine where
  "wram_demo =
     power_on\<lparr>boot_rom_enabled := False,
              cpu := (cpu power_on)\<lparr>AF := 0x12FF, BC := 0x1234, DE := 0x5678, HL := 0x9ABC,
                                    SP := 0xD000\<rparr>,
              ppu := (ppu power_on)\<lparr>mode := MODE_3_DRAWING\<rparr>,
              memory := (memory power_on)(0xFF40 := 0x91, 0xFF41 := 0x03)\<rparr>"

section \<open>Facts about the bus\<close>

lemma memcpy_mem_apply:
  "n \<le> 65536 \<Longrightarrow>
   memcpy_mem dst src n mem a =
     (if unat (a - dst) < n then mem (src + (a - dst)) else mem a)"
proof (induction n)
  case 0
  then show ?case by (simp add: memcpy_mem_def)
next
  case (Suc n)
  have step: "memcpy_mem dst src (Suc n) mem =
      (memcpy_mem dst src n mem)(dst + of_nat n := mem (src + of_nat n))"
    by (simp add: memcpy_mem_def)
  have n_lt: "n < 65536" using Suc.prems by simp
  have un: "unat (of_nat n :: u16) = n"
    using n_lt by (simp add: unat_of_nat)
  show ?case
  proof (cases "a = dst + of_nat n")
    case True
    then have "a - dst = of_nat n" by simp
    then show ?thesis using step un True by simp
  next
    case False
    then have ne: "a - dst \<noteq> of_nat n"
      by (simp add: diff_eq_eq add.commute)
    have "unat (a - dst) \<noteq> n"
    proof
      assume "unat (a - dst) = n"
      then have "of_nat (unat (a - dst)) = (of_nat n :: u16)" by simp
      then show False using ne by simp
    qed
    then have "unat (a - dst) < Suc n \<longleftrightarrow> unat (a - dst) < n" by arith
    then show ?thesis using step False Suc.IH n_lt by simp
  qed
qed

lemma rom_not_gated: "addr \<le> 0x7FFF \<Longrightarrow> \<not> gated s addr"
  by (auto simp: gated_def Let_def word_le_nat_alt)

lemma rom_not_special:
  "(addr :: u16) \<le> 0x7FFF \<Longrightarrow> addr \<noteq> 0xFF50 \<and> addr \<noteq> 0xFF46 \<and> addr \<noteq> 0xFF04"
  by (auto simp: word_le_nat_alt)

section \<open>Writes to the cartridge ROM range\<close>

text \<open>
  C8, as stated: a \<open>WriteMem\<close> to an address in \<open>0x0000-0x7FFF\<close> leaves the byte at that
  address unchanged. \<open>WriteMem\<close> has no case for the ROM range: at power-on, writing
  \<open>0x42\<close> to \<open>0x0150\<close> changes \<open>memory[0x0150]\<close> from \<open>0x00\<close> to \<open>0x42\<close>.
\<close>

theorem WriteMem_rom_ignored_counterexample:
  "memory (WriteMem 0x0150 0x42 power_on) 0x0150 \<noteq> memory power_on 0x0150"
  by (simp add: WriteMem_def gated_def ppu_get_mode_def power_on_def
      InitializePowerOnState_def zero_machine_def)

text \<open>
  C8, amended: for every address in \<open>0x0000-0x7FFF\<close> and every data byte, \<open>WriteMem\<close>
  stores the data byte at that address (the ROM range is not write-protected), and
  changes no other byte of \<open>memory\<close>.
\<close>

theorem WriteMem_rom_stores:
  "addr \<le> 0x7FFF \<Longrightarrow> memory (WriteMem addr data s) = (memory s)(addr := data)"
  using rom_not_gated [of addr s] rom_not_special [of addr]
  by (simp add: WriteMem_def)

theorem WriteMem_rom_stores_witness:
  "(0x0150 :: u16) \<le> 0x7FFF \<and>
   memory (WriteMem 0x0150 0x42 power_on) = (memory power_on)(0x0150 := 0x42)"
  using WriteMem_rom_stores [of "0x0150" "0x42" power_on] by simp

section \<open>OAM DMA\<close>

lemma cpu_WriteMem [simp]: "cpu (WriteMem a d s) = cpu s"
  by (simp add: WriteMem_def Let_def)

lemma ff46_not_gated: "\<not> gated s 0xFF46"
  by (simp add: gated_def Let_def)

lemma oam_index: "i < 160 \<Longrightarrow> unat ((0xFE00 :: u16) + of_nat i - 0xFE00) = i"
  by (simp add: unat_of_nat)

lemma oam_ne_ff46: "i < 160 \<Longrightarrow> (0xFE00 :: u16) + of_nat i \<noteq> 0xFF46"
proof
  assume i: "i < 160" and e: "(0xFE00 :: u16) + of_nat i = 0xFF46"
  from e have "(of_nat i :: u16) = 0x146" by (simp add: add.commute flip: diff_eq_eq)
  then have "unat (of_nat i :: u16) = 0x146" by simp
  with i show False by (simp add: unat_of_nat)
qed

lemma dma_demo_started:
  "dma (WriteMem 0xFF46 0xC0 dma_demo) = \<lparr>dma_running = True, dma_cycles = 0\<rparr>"
  by (simp add: WriteMem_def ff46_not_gated Let_def)

text \<open>
  C5: a write of \<open>v\<close> to \<open>0xFF46\<close> copies the 160 bytes that start at \<open>v * 0x100\<close> to
  \<open>0xFE00-0xFE9F\<close>, sets \<open>dma.running\<close> and zeroes \<open>dma.cycles\<close>; while \<open>dma.running\<close> is
  set, \<open>ReadMem\<close> of every address below \<open>0xFF80\<close> or above \<open>0xFFFE\<close> returns \<open>0xFF\<close>;
  \<open>dma_step\<close> adds the cycles to \<open>dma.cycles\<close> and leaves \<open>dma.running\<close> set exactly
  when the sum is still below 640.
\<close>

theorem dma_transfer_and_lockout:
  "(\<forall>i<160. memory (WriteMem 0xFF46 v s) (0xFE00 + of_nat i)
              = memory s ((ucast v :: u16) * 0x100 + of_nat i))
   \<and> dma (WriteMem 0xFF46 v s) = \<lparr>dma_running = True, dma_cycles = 0\<rparr>
   \<and> (dma_running (dma s) \<and> (addr < 0xFF80 \<or> addr > 0xFFFE) \<longrightarrow> ReadMem s addr = 0xFF)
   \<and> (dma_running (dma s) \<longrightarrow>
        dma_cycles (dma (dma_step c s)) = dma_cycles (dma s) + word_of_int c
        \<and> (dma_running (dma (dma_step c s)) \<longleftrightarrow> dma_cycles (dma s) + word_of_int c < 640))"
proof (intro conjI allI impI)
  fix i :: nat assume i: "i < 160"
  show "memory (WriteMem 0xFF46 v s) (0xFE00 + of_nat i)
              = memory s ((ucast v :: u16) * 0x100 + of_nat i)"
    using oam_ne_ff46 [OF i] oam_index [OF i] i
    by (simp add: WriteMem_def ff46_not_gated Let_def memcpy_mem_apply)
next
  show "dma (WriteMem 0xFF46 v s) = \<lparr>dma_running = True, dma_cycles = 0\<rparr>"
    by (simp add: WriteMem_def ff46_not_gated Let_def)
next
  assume "dma_running (dma s) \<and> (addr < 0xFF80 \<or> addr > 0xFFFE)"
  then show "ReadMem s addr = 0xFF" by (simp add: ReadMem_def)
next
  assume "dma_running (dma s)"
  then show "dma_cycles (dma (dma_step c s)) = dma_cycles (dma s) + word_of_int c"
    by (simp add: dma_step_def Let_def)
next
  assume "dma_running (dma s)"
  then show "dma_running (dma (dma_step c s)) \<longleftrightarrow> dma_cycles (dma s) + word_of_int c < 640"
    by (simp add: dma_step_def Let_def not_le)
qed

theorem dma_transfer_and_lockout_witness:
  "memory dma_demo 0xC003 = 0x5A
   \<and> memory (WriteMem 0xFF46 0xC0 dma_demo) 0xFE03 = 0x5A
   \<and> dma_running (dma (WriteMem 0xFF46 0xC0 dma_demo))
   \<and> ReadMem (WriteMem 0xFF46 0xC0 dma_demo) 0xC003 = 0xFF
   \<and> dma_cycles (dma (dma_step 636 (WriteMem 0xFF46 0xC0 dma_demo))) = 636
   \<and> dma_running (dma (dma_step 636 (WriteMem 0xFF46 0xC0 dma_demo)))
   \<and> \<not> dma_running (dma (dma_step 640 (WriteMem 0xFF46 0xC0 dma_demo)))"
proof -
  let ?s = "WriteMem 0xFF46 0xC0 dma_demo"
  have src: "memory dma_demo 0xC003 = 0x5A" by (simp add: dma_demo_def)
  have run: "dma_running (dma ?s)" by (simp add: dma_demo_started)
  have copy: "memory ?s 0xFE03 = memory dma_demo 0xC003"
    using dma_transfer_and_lockout [of "0xC0" dma_demo 0 0, THEN conjunct1, rule_format, of 3]
    by simp
  have rd: "ReadMem ?s 0xC003 = 0xFF"
    using dma_transfer_and_lockout [of "0xC0" ?s "0xC003" 0] run by simp
  have st1: "dma_cycles (dma (dma_step 636 ?s)) = 636 \<and> dma_running (dma (dma_step 636 ?s))"
    using dma_transfer_and_lockout [of "0xC0" ?s 0 636] run by (simp add: dma_demo_started)
  have st2: "\<not> dma_running (dma (dma_step 640 ?s))"
    using dma_transfer_and_lockout [of "0xC0" ?s 0 640] run by (simp add: dma_demo_started)
  show ?thesis using src run copy rd st1 st2 by simp
qed

subsection \<open>Length of the DMA lockout\<close>

text \<open>
  From a running DMA with \<open>k\<close> elapsed cycles, a sequence of \<open>dma_step\<close> calls with
  non-negative cycle counts leaves \<open>dma.running\<close> set exactly while the elapsed total
  is below 640.
\<close>

lemma dma_lockout_length:
  assumes "dma_running (dma s)" "unat (dma_cycles (dma s)) = k" "k < 640"
    and "\<forall>c \<in> set cs. 0 \<le> c \<and> c < 2 ^ 31" "k + nat (sum_list cs) < 2 ^ 64"
  shows "dma_running (dma (fold dma_step cs s)) \<longleftrightarrow> k + nat (sum_list cs) < 640"
  using assms
proof (induction cs arbitrary: s k)
  case Nil
  then show ?case by simp
next
  case (Cons c cs)
  have c: "0 \<le> c" "c < 2 ^ 31" using Cons.prems(4) by auto
  have nn: "0 \<le> sum_list cs" using Cons.prems(4) by (auto intro: sum_list_nonneg)
  have split: "nat (c + sum_list cs) = nat c + nat (sum_list cs)"
    using c nn by (simp add: nat_add_distrib)
  let ?w = "dma_cycles (dma s) + word_of_int c"
  have wc: "unat (word_of_int c :: size_t) = nat c"
    using c by (simp add: unat_eq_nat_uint uint_word_of_int take_bit_int_eq_self)
  have uw: "unat ?w = k + nat c"
    using Cons.prems(2,3) c wc by (simp add: unat_word_ariths)
  show ?case
  proof (cases "k + nat c < 640")
    case True
    have run: "dma_running (dma (dma_step c s))"
      using Cons.prems(1) True uw by (simp add: dma_step_def Let_def word_le_nat_alt)
    have cy: "unat (dma_cycles (dma (dma_step c s))) = k + nat c"
      using Cons.prems(1) uw by (simp add: dma_step_def Let_def)
    have "dma_running (dma (fold dma_step cs (dma_step c s)))
        \<longleftrightarrow> (k + nat c) + nat (sum_list cs) < 640"
      using Cons.prems(4,5) split by (intro Cons.IH [OF run cy True]) auto
    then show ?thesis by (simp add: split add.assoc)
  next
    case False
    have stop: "\<not> dma_running (dma (dma_step c s))"
      using Cons.prems(1) False uw by (simp add: dma_step_def Let_def word_le_nat_alt)
    have stay: "\<not> dma_running (dma t) \<Longrightarrow> \<not> dma_running (dma (fold dma_step xs t))" for xs t
      by (induction xs arbitrary: t) (simp_all add: dma_step_def)
    show ?thesis using stay [OF stop] False by (simp add: split)
  qed
qed

section \<open>Interrupt service during the DMA lockout\<close>

text \<open>
  C10: while \<open>dma.running\<close> is set, \<open>handleInterrupts\<close> obtains \<open>0xFF\<close> for both \<open>IE\<close> and
  \<open>IF\<close> from \<open>ReadMem\<close>, whatever \<open>memory\<close> holds at \<open>0xFFFF\<close> and \<open>0xFF0F\<close>. So the CPU
  is never halted afterwards, and with \<open>IME\<close> set an interrupt is serviced: 20 cycles
  are reported, \<open>IME\<close> is cleared, \<open>SP\<close> goes down by 2 and \<open>PC\<close> is the VBLANK vector
  \<open>0x0040\<close>.
\<close>

theorem handleInterrupts_during_dma:
  "dma_running (dma s) \<Longrightarrow>
     ReadMem s IE_REG = 0xFF \<and> ReadMem s IF_REG = 0xFF
     \<and> \<not> halted (cpu (snd (handleInterrupts s)))
     \<and> (IME (cpu s) \<longrightarrow> fst (handleInterrupts s) = 20
                        \<and> \<not> IME (cpu (snd (handleInterrupts s)))
                        \<and> SP (cpu (snd (handleInterrupts s))) = SP (cpu s) - 2
                        \<and> PC (cpu (snd (handleInterrupts s))) = 0x0040)"
proof -
  assume run: "dma_running (dma s)"
  have ie: "ReadMem s IE_REG = 0xFF" using run by (simp add: ReadMem_def)
  have rq: "ReadMem s IF_REG = 0xFF" using run by (simp add: ReadMem_def)
  show ?thesis
    using ie rq by (simp add: handleInterrupts_def Let_def)
qed

theorem handleInterrupts_during_dma_witness:
  "dma_running (dma lockout_demo) \<and> IME (cpu lockout_demo) \<and> halted (cpu lockout_demo)
   \<and> memory lockout_demo IE_REG = 0 \<and> memory lockout_demo IF_REG = 0
   \<and> \<not> halted (cpu (snd (handleInterrupts lockout_demo)))
   \<and> fst (handleInterrupts lockout_demo) = 20
   \<and> SP (cpu (snd (handleInterrupts lockout_demo))) = 0xFFFC
   \<and> PC (cpu (snd (handleInterrupts lockout_demo))) = 0x0040"
proof -
  have pre: "dma_running (dma lockout_demo)" by (simp add: lockout_demo_def)
  have st: "IME (cpu lockout_demo) \<and> halted (cpu lockout_demo) \<and> SP (cpu lockout_demo) = 0xFFFE
      \<and> memory lockout_demo IE_REG = 0 \<and> memory lockout_demo IF_REG = 0"
    by (simp add: lockout_demo_def power_on_def InitializePowerOnState_def zero_machine_def)
  show ?thesis using handleInterrupts_during_dma [OF pre] pre st by simp
qed

section \<open>Timer\<close>

lemma tima_threshold_cases:
  "tima_threshold TAC =
     (if TAC AND 0x03 = 0 then 1024 else if TAC AND 0x03 = 1 then 16
      else if TAC AND 0x03 = 2 then 64 else 256)"
  by (simp add: tima_threshold_def tima_inc_rate_def)

lemma tima_threshold_pos: "0 < unat (tima_threshold TAC)"
  by (simp add: tima_threshold_cases)

lemma tima_loop_closed:
  "tima_loop TAC (cnt, mem) =
     (cnt mod tima_threshold TAC,
      (tima_increment ^^ (unat cnt div unat (tima_threshold TAC))) mem)"
proof (induction TAC "(cnt, mem)" arbitrary: cnt mem rule: tima_loop.induct)
  case (1 TAC cnt mem)
  let ?th = "tima_threshold TAC"
  have pos: "0 < unat ?th" by (rule tima_threshold_pos)
  show ?case
  proof (cases "?th \<le> cnt")
    case True
    then have le: "unat ?th \<le> unat cnt" by (simp add: word_le_nat_alt)
    have sub: "unat (cnt - ?th) = unat cnt - unat ?th" using True by (simp add: unat_sub)
    have m: "(cnt - ?th) mod ?th = cnt mod ?th"
      by (rule word_unat_eq_iff [THEN iffD2]) (simp add: unat_mod sub le le_mod_geq)
    have d: "unat cnt div unat ?th = Suc (unat (cnt - ?th) div unat ?th)"
      using le pos by (simp add: sub le_div_geq)
    have "tima_loop TAC (cnt, mem) = tima_loop TAC (cnt - ?th, tima_increment mem)"
      using True by (simp add: tima_loop.simps [of TAC cnt mem])
    also have "\<dots> = ((cnt - ?th) mod ?th,
        (tima_increment ^^ (unat (cnt - ?th) div unat ?th)) (tima_increment mem))"
      using "1.hyps" [OF True] .
    finally show ?thesis by (simp add: m d funpow_swap1)
  next
    case False
    then have lt: "unat cnt < unat ?th" by (simp add: word_le_nat_alt)
    have m: "cnt mod ?th = cnt"
      by (rule word_unat_eq_iff [THEN iffD2]) (simp add: unat_mod lt)
    show ?thesis using False lt by (simp add: m tima_loop.simps [of TAC cnt mem])
  qed
qed

lemma tima_increment_apply:
  "tima_increment mem a =
     (if a = TIMA_REG then (if mem TIMA_REG = 0xFF then mem TMA_REG else mem TIMA_REG + 1)
      else if a = IF_REG then (if mem TIMA_REG = 0xFF then mem IF_REG OR 0x04 else mem IF_REG)
      else mem a)"
proof -
  have w: "mem TIMA_REG + 1 = 0 \<longleftrightarrow> mem TIMA_REG = 0xFF"
  proof -
    have m1: "(- 1 :: u8) = 255" by simp
    have "mem TIMA_REG + 1 = 0 \<longleftrightarrow> mem TIMA_REG = - 1" by (simp add: eq_neg_iff_add_eq_0)
    then show ?thesis by (simp only: m1)
  qed
  show ?thesis by (auto simp: tima_increment_def Let_def w)
qed

lemma timer_div_step_other:
  "a \<noteq> DIV_REG \<Longrightarrow> memory (timer_div_step c s) a = memory s a"
  by (simp add: timer_div_step_def Let_def)

lemma timer_div_step_tima_cnt:
  "tima_cycle_counter (timer (timer_div_step c s)) = tima_cycle_counter (timer s) + word_of_int c"
  by (simp add: timer_div_step_def Let_def)

text \<open>
  C6: with bit 2 of \<open>TAC\<close> set, \<open>timer_step c\<close> applies the increment of \<open>TIMA\<close> once
  for every whole threshold contained in the accumulated counter
  \<open>tima_cycle_counter + c\<close> and keeps the remainder; the threshold is 1024, 16, 64 or
  256 T-cycles for \<open>TAC\<close> bits 1..0 = 00, 01, 10, 11; an increment of \<open>TIMA = 0xFF\<close>
  stores \<open>TMA\<close> in \<open>TIMA\<close> and sets bit 2 of \<open>IF\<close>, any other increment adds 1 and
  leaves \<open>IF\<close> alone; with bit 2 of \<open>TAC\<close> clear, \<open>TIMA\<close> is unchanged.
\<close>

theorem timer_step_tima:
  "(memory s TAC_REG AND 0x04 \<noteq> 0 \<longrightarrow>
      memory (timer_step c s) =
        (tima_increment ^^ (unat (tima_cycle_counter (timer s) + word_of_int c)
                             div unat (tima_threshold (memory s TAC_REG))))
          (memory (timer_div_step c s))
      \<and> tima_cycle_counter (timer (timer_step c s)) =
          (tima_cycle_counter (timer s) + word_of_int c) mod tima_threshold (memory s TAC_REG))
   \<and> tima_threshold TAC =
        (if TAC AND 0x03 = 0 then 1024 else if TAC AND 0x03 = 1 then 16
         else if TAC AND 0x03 = 2 then 64 else 256)
   \<and> tima_increment mem TIMA_REG =
        (if mem TIMA_REG = 0xFF then mem TMA_REG else mem TIMA_REG + 1)
   \<and> tima_increment mem IF_REG =
        (if mem TIMA_REG = 0xFF then mem IF_REG OR 0x04 else mem IF_REG)
   \<and> (memory s TAC_REG AND 0x04 = 0 \<longrightarrow>
        memory (timer_step c s) TIMA_REG = memory s TIMA_REG)"
proof (intro conjI impI)
  assume en: "memory s TAC_REG AND 0x04 \<noteq> 0"
  have tac: "memory (timer_div_step c s) TAC_REG = memory s TAC_REG"
    by (simp add: timer_div_step_other)
  show "memory (timer_step c s) =
        (tima_increment ^^ (unat (tima_cycle_counter (timer s) + word_of_int c)
                             div unat (tima_threshold (memory s TAC_REG))))
          (memory (timer_div_step c s))"
    using en by (simp add: timer_step_def Let_def tac tima_loop_closed timer_div_step_tima_cnt)
  show "tima_cycle_counter (timer (timer_step c s)) =
          (tima_cycle_counter (timer s) + word_of_int c) mod tima_threshold (memory s TAC_REG)"
    using en by (simp add: timer_step_def Let_def tac tima_loop_closed timer_div_step_tima_cnt)
next
  show "tima_threshold TAC =
        (if TAC AND 0x03 = 0 then 1024 else if TAC AND 0x03 = 1 then 16
         else if TAC AND 0x03 = 2 then 64 else 256)"
    by (rule tima_threshold_cases)
next
  show "tima_increment mem TIMA_REG =
        (if mem TIMA_REG = 0xFF then mem TMA_REG else mem TIMA_REG + 1)"
    by (simp add: tima_increment_apply)
next
  show "tima_increment mem IF_REG =
        (if mem TIMA_REG = 0xFF then mem IF_REG OR 0x04 else mem IF_REG)"
    by (simp add: tima_increment_apply)
next
  assume dis: "memory s TAC_REG AND 0x04 = 0"
  have tac: "memory (timer_div_step c s) TAC_REG = memory s TAC_REG"
    by (simp add: timer_div_step_other)
  show "memory (timer_step c s) TIMA_REG = memory s TIMA_REG"
    using dis by (simp add: timer_step_def Let_def tac timer_div_step_other)
qed

lemma timer_demo_regs:
  "memory timer_demo TAC_REG = 0x05 \<and> memory timer_demo TIMA_REG = 0xFE
   \<and> memory timer_demo TMA_REG = 0xAB \<and> memory timer_demo IF_REG = 0
   \<and> tima_cycle_counter (timer timer_demo) = 0"
  by (simp add: timer_demo_def power_on_def InitializePowerOnState_def zero_machine_def)

lemma timer_demo_div: "memory (timer_div_step 32 timer_demo) = memory timer_demo"
  by (simp add: timer_div_step_def Let_def timer_demo_def power_on_def
      InitializePowerOnState_def zero_machine_def)

theorem timer_step_tima_witness:
  "memory timer_demo TAC_REG AND 0x04 \<noteq> 0
   \<and> tima_threshold (memory timer_demo TAC_REG) = 16
   \<and> memory (timer_step 32 timer_demo) TIMA_REG = 0xAB
   \<and> memory (timer_step 32 timer_demo) IF_REG = 0x04
   \<and> tima_cycle_counter (timer (timer_step 32 timer_demo)) = 0
   \<and> memory (timer_demo\<lparr>memory := (memory timer_demo)(TAC_REG := 0x01)\<rparr>) TAC_REG AND 0x04 = 0
   \<and> memory (timer_step 32 (timer_demo\<lparr>memory := (memory timer_demo)(TAC_REG := 0x01)\<rparr>)) TIMA_REG
       = 0xFE"
proof -
  let ?off = "timer_demo\<lparr>memory := (memory timer_demo)(TAC_REG := 0x01)\<rparr>"
  have en: "memory timer_demo TAC_REG AND 0x04 \<noteq> 0" by (simp add: timer_demo_regs)
  have th: "tima_threshold (memory timer_demo TAC_REG) = 16"
    using timer_step_tima [of timer_demo 0 "0x05" "memory timer_demo"]
    by (simp add: timer_demo_regs)
  have two: "unat (tima_cycle_counter (timer timer_demo) + 32)
               div unat (tima_threshold (memory timer_demo TAC_REG)) = Suc (Suc 0)"
    using th by (simp add: timer_demo_regs)
  have mem: "memory (timer_step 32 timer_demo) = tima_increment (tima_increment (memory timer_demo))"
    using timer_step_tima [of timer_demo 32 0 "memory timer_demo"] en
    by (simp add: two timer_demo_div)
  have one: "tima_increment (memory timer_demo) TIMA_REG = 0xFF
      \<and> tima_increment (memory timer_demo) IF_REG = 0
      \<and> tima_increment (memory timer_demo) TMA_REG = 0xAB"
    using timer_step_tima [of timer_demo 0 0 "memory timer_demo"]
    by (simp add: timer_demo_regs tima_increment_apply)
  have fin: "memory (timer_step 32 timer_demo) TIMA_REG = 0xAB
      \<and> memory (timer_step 32 timer_demo) IF_REG = 0x04"
    using timer_step_tima [of timer_demo 0 0 "tima_increment (memory timer_demo)"]
    by (simp add: mem one)
  have cnt: "tima_cycle_counter (timer (timer_step 32 timer_demo)) = 0"
    using timer_step_tima [of timer_demo 32 0 "memory timer_demo"] en th
    by (simp add: timer_demo_regs)
  have offp: "memory ?off TAC_REG AND 0x04 = 0" by simp
  have offr: "memory (timer_step 32 ?off) TIMA_REG = 0xFE"
    using timer_step_tima [of ?off 32 0 "memory timer_demo"] offp
    by (simp add: timer_demo_regs)
  show ?thesis using en th fin cnt offp offr by simp
qed

section \<open>The LY = LYC coincidence bit\<close>

lemma flag4_bit: "(x :: u8) AND 0x04 \<noteq> 0 \<longleftrightarrow> bit x 2"
  using and_exp_eq_0_iff_not_bit [of x 2] by simp

text \<open>
  The HBLANK exit keeps the coincidence bit right: after the increment of \<open>LY\<close>, bit 2 of
  \<open>STAT\<close> is set exactly when the new \<open>LY\<close> equals \<open>LYC\<close>.
\<close>

lemma ppu_step_hblank_coincidence:
  assumes m: "mode (ppu s) = MODE_0_HBLANK"
    and c: "cycle_counter (ppu s) + word_of_int c \<ge> 204"
  shows "ly (ppu (ppu_step c s)) = ly (ppu s) + 1
     \<and> memory (ppu_step c s) 0xFF44 = ly (ppu s) + 1
     \<and> memory (ppu_step c s) 0xFF45 = memory s 0xFF45
     \<and> (memory (ppu_step c s) 0xFF41 AND 0x04 \<noteq> 0
          \<longleftrightarrow> ly (ppu (ppu_step c s)) = memory (ppu_step c s) 0xFF45)"
  using m c unfolding flag4_bit
  by (simp add: ppu_step_def Let_def next_line_def sub_cycles_def ppu_set_mode_def
      request_interrupt_def ppu_oam_scan_def bit_simps)

text \<open>
  The VBLANK branch never writes the coincidence bit, whatever it does to \<open>LY\<close>.
\<close>

lemma ppu_step_vblank_keeps_coincidence:
  assumes m: "mode (ppu s) = MODE_1_VBLANK"
  shows "memory (ppu_step c s) 0xFF41 AND 0x04 \<noteq> 0 \<longleftrightarrow> memory s 0xFF41 AND 0x04 \<noteq> 0"
  using m unfolding flag4_bit
  by (simp add: ppu_step_def Let_def next_line_def sub_cycles_def ppu_set_mode_def
      request_interrupt_def ppu_oam_scan_def bit_simps)

text \<open>
  C4: bit 2 of \<open>STAT\<close> is set if \<open>LY = LYC\<close> and clear otherwise, across every change of
  \<open>LY\<close> that \<open>ppu_step\<close> makes. The VBLANK line increment breaks it: from \<open>LY = 144\<close>
  with \<open>LYC = 145\<close>, \<open>ppu_step\<close> moves \<open>LY\<close> to 145 and leaves bit 2 of \<open>STAT\<close> clear.
\<close>

theorem ppu_step_vblank_coincidence_missed:
  "mode (ppu vblank_demo) = MODE_1_VBLANK
   \<and> ly (ppu (ppu_step 4 vblank_demo)) = 145
   \<and> memory (ppu_step 4 vblank_demo) 0xFF44 = 145
   \<and> memory (ppu_step 4 vblank_demo) 0xFF45 = 145
   \<and> memory (ppu_step 4 vblank_demo) 0xFF41 AND 0x04 = 0"
  by (simp add: ppu_step_def Let_def next_line_def sub_cycles_def vblank_demo_def
      power_on_def InitializePowerOnState_def zero_machine_def)

section \<open>\<open>ADD HL,rr\<close>\<close>

lemma flag_bits:
  "flag_Z c = bit (AF c) 7" "flag_N c = bit (AF c) 6"
  "flag_H c = bit (AF c) 5" "flag_C c = bit (AF c) 4"
  using and_exp_eq_0_iff_not_bit [of "AF c" 7] and_exp_eq_0_iff_not_bit [of "AF c" 6]
    and_exp_eq_0_iff_not_bit [of "AF c" 5] and_exp_eq_0_iff_not_bit [of "AF c" 4]
  by (simp_all add: flag_Z_def flag_N_def flag_H_def flag_C_def)

text \<open>
  The copy in \<open>hardware/cpu.c\<close> follows the flag table: Z is kept, N is cleared, H is
  the carry out of bit 11 and C the carry out of bit 15.
\<close>

lemma ADD_HL_rr_flags:
  assumes op: "ADD_HL_rr_operand (ReadMem s (PC (cpu s) - 1)) (cpu s) = Some n"
  shows "\<exists>s'. ADD_HL_rr s = Some (8, s')
     \<and> flag_Z (cpu s') = flag_Z (cpu s)
     \<and> \<not> flag_N (cpu s')
     \<and> (flag_H (cpu s') \<longleftrightarrow> unat (HL (cpu s) AND 0x0FFF) + unat (n AND 0x0FFF) > 0x0FFF)
     \<and> (flag_C (cpu s') \<longleftrightarrow> unat (HL (cpu s)) + unat n > 0xFFFF)
     \<and> HL (cpu s') = HL (cpu s) + n"
  using op by (simp add: ADD_HL_rr_def Let_def flag_bits bit_simps)

lemma u16_small: "\<not> unat (w :: u16) > 0xFFFF"
  using unsigned_less [of w, where ?'a = nat] by simp

text \<open>
  The copy of the single-file build never sets C: the sum is truncated to 16 bits
  before it is compared with \<open>0xFFFF\<close>.
\<close>

lemma ADD_HL_rr_mono_flags:
  assumes op: "ADD_HL_rr_operand (ReadMem_mono s (PC (cpu s) - 1)) (cpu s) = Some n"
  shows "\<exists>s'. ADD_HL_rr_mono s = Some (8, s')
     \<and> flag_Z (cpu s') = flag_Z (cpu s)
     \<and> \<not> flag_N (cpu s')
     \<and> (flag_H (cpu s') \<longleftrightarrow> unat (HL (cpu s) AND 0x0FFF) + unat (n AND 0x0FFF) > 0x0FFF)
     \<and> \<not> flag_C (cpu s')
     \<and> HL (cpu s') = HL (cpu s) + n"
  using op by (simp add: ADD_HL_rr_mono_def Let_def flag_bits bit_simps u16_small)

text \<open>
  The first version compares the truncated sum with \<open>0xFF\<close> and takes the half carry
  out of bit 3.
\<close>

lemma ADD_HL_rr_v0_flags:
  assumes op: "ADD_HL_rr_operand (memory s (PC (cpu s) - 1)) (cpu s) = Some n"
  shows "\<exists>s'. ADD_HL_rr_v0 s = Some (8, s')
     \<and> flag_Z (cpu s') = flag_Z (cpu s)
     \<and> \<not> flag_N (cpu s')
     \<and> (flag_H (cpu s') \<longleftrightarrow> unat (HL (cpu s) AND 0x0F) + unat (n AND 0x0F) > 0x0F)
     \<and> (flag_C (cpu s') \<longleftrightarrow> unat (HL (cpu s) + n) > 0xFF)
     \<and> HL (cpu s') = HL (cpu s) + n"
  using op by (simp add: ADD_HL_rr_v0_def Let_def flag_bits bit_simps)

text \<open>
  C2: for every \<open>ADD HL,rr\<close>, Z is unchanged, N is cleared, H is set iff
  \<open>(HL & 0x0FFF) + (rr & 0x0FFF) > 0x0FFF\<close> and C is set iff \<open>HL + rr\<close> exceeds \<open>0xFFFF\<close>.
  In the single-file build and in the first version, \<open>ADD HL,BC\<close> with \<open>HL = 0xFFFF\<close>
  and \<open>BC = 0x0001\<close> overflows 16 bits and yet leaves C clear.
\<close>

theorem ADD_HL_rr_carry_lost:
  "ADD_HL_rr_operand (ReadMem_mono add_demo (PC (cpu add_demo) - 1)) (cpu add_demo) = Some 0x0001
   \<and> ADD_HL_rr_operand (memory add_demo (PC (cpu add_demo) - 1)) (cpu add_demo) = Some 0x0001
   \<and> unat (HL (cpu add_demo)) + unat (0x0001 :: u16) > 0xFFFF
   \<and> map_option (\<lambda>r. flag_C (cpu (snd r))) (ADD_HL_rr_mono add_demo) = Some False
   \<and> map_option (\<lambda>r. flag_C (cpu (snd r))) (ADD_HL_rr_v0 add_demo) = Some False"
  by (simp add: ADD_HL_rr_mono_def ADD_HL_rr_v0_def ADD_HL_rr_operand_def ReadMem_mono_def
      gated_def ppu_get_mode_def flag_C_def Let_def add_demo_def
      power_on_def InitializePowerOnState_def zero_machine_def)

section \<open>\<open>ADD SP,s8\<close>\<close>

lemma sint_low_nibble: "sint (b :: u8) AND 0x0F = uint (b AND 0x0F)"
proof -
  have i: "(0x0F :: int) = mask 4" and w: "(0x0F :: u8) = mask 4"
    by (simp_all add: mask_eq_exp_minus_1)
  show ?thesis unfolding i w by (rule bit_eqI) (auto simp: bit_simps min_def)
qed

lemma sint_low_byte: "sint (b :: u8) AND 0xFF = uint b"
proof -
  have i: "(0xFF :: int) = mask 8"
    by (simp add: mask_eq_exp_minus_1)
  have "bit (sint b AND mask 8) n = bit (uint b) n" for n
  proof (cases "n < 8")
    case True
    then have "min 7 n = n" by simp
    then show ?thesis using True by (simp add: bit_simps)
  next
    case False
    then have "\<not> bit b n" by (auto dest: bit_imp_le_length)
    then show ?thesis using False by (simp add: bit_simps)
  qed
  then show ?thesis unfolding i by (rule bit_eqI)
qed

lemma ucast_and_FF: "(ucast ((x :: u16) AND 0xFF) :: u8) = ucast x"
proof -
  have m: "(0xFF :: u16) = mask 8" by (simp add: mask_eq_exp_minus_1)
  show ?thesis unfolding m by (rule bit_word_eqI) (simp add: bit_simps)
qed

text \<open>
  The copy in \<open>hardware/cpu.c\<close> clears the flag byte only (\<open>cpu->AF &= 0xFF00\<close>): the
  flags follow the table, \<open>SP\<close> receives \<open>SP + s8\<close>, and \<open>A\<close>, \<open>BC\<close>, \<open>DE\<close>, \<open>HL\<close> keep
  their values.
\<close>

lemma ADD_SP_s8_effect:
  assumes f: "FetchByte s = (b, s1)"
  shows "fst (ADD_SP_s8 s) = 16
     \<and> \<not> flag_Z (cpu (snd (ADD_SP_s8 s))) \<and> \<not> flag_N (cpu (snd (ADD_SP_s8 s)))
     \<and> (flag_H (cpu (snd (ADD_SP_s8 s)))
          \<longleftrightarrow> uint (SP (cpu s) AND 0x0F) + uint (b AND 0x0F) > 0x0F)
     \<and> (flag_C (cpu (snd (ADD_SP_s8 s)))
          \<longleftrightarrow> uint (SP (cpu s) AND 0xFF) + uint (b AND 0xFF) > 0xFF)
     \<and> SP (cpu (snd (ADD_SP_s8 s))) = word_of_int (uint (SP (cpu s)) + sint b)
     \<and> reg_A (cpu (snd (ADD_SP_s8 s))) = reg_A (cpu s)
     \<and> BC (cpu (snd (ADD_SP_s8 s))) = BC (cpu s)
     \<and> DE (cpu (snd (ADD_SP_s8 s))) = DE (cpu s)
     \<and> HL (cpu (snd (ADD_SP_s8 s))) = HL (cpu s)
     \<and> PC (cpu (snd (ADD_SP_s8 s))) = PC (cpu s1)"
proof -
  have c1: "SP (cpu s1) = SP (cpu s) \<and> AF (cpu s1) = AF (cpu s) \<and> BC (cpu s1) = BC (cpu s)
      \<and> DE (cpu s1) = DE (cpu s) \<and> HL (cpu s1) = HL (cpu s)"
    using f by (auto simp: FetchByte_def split: if_splits)
  show ?thesis
    using c1 by (simp add: ADD_SP_s8_def f Let_def flag_bits bit_simps reg_A_def ucast_and_FF)
qed

text \<open>
  The copy of the single-file build computes the same flags and the same \<open>SP\<close>, but
  its \<open>cpu->AF = 0x00\<close> zeroes the accumulator on every execution.
\<close>

lemma ADD_SP_s8_mono_effect:
  assumes f: "FetchByte_mono s = (b, s1)"
  shows "fst (ADD_SP_s8_mono s) = 16
     \<and> \<not> flag_Z (cpu (snd (ADD_SP_s8_mono s))) \<and> \<not> flag_N (cpu (snd (ADD_SP_s8_mono s)))
     \<and> (flag_H (cpu (snd (ADD_SP_s8_mono s)))
          \<longleftrightarrow> uint (SP (cpu s) AND 0x0F) + uint (b AND 0x0F) > 0x0F)
     \<and> (flag_C (cpu (snd (ADD_SP_s8_mono s)))
          \<longleftrightarrow> uint (SP (cpu s) AND 0xFF) + uint (b AND 0xFF) > 0xFF)
     \<and> SP (cpu (snd (ADD_SP_s8_mono s))) = word_of_int (uint (SP (cpu s)) + sint b)
     \<and> reg_A (cpu (snd (ADD_SP_s8_mono s))) = 0
     \<and> BC (cpu (snd (ADD_SP_s8_mono s))) = BC (cpu s)
     \<and> DE (cpu (snd (ADD_SP_s8_mono s))) = DE (cpu s)
     \<and> HL (cpu (snd (ADD_SP_s8_mono s))) = HL (cpu s)
     \<and> PC (cpu (snd (ADD_SP_s8_mono s))) = PC (cpu s) + 1"
proof -
  have c1: "s1 = s\<lparr>cpu := (cpu s)\<lparr>PC := PC (cpu s) + 1\<rparr>\<rparr>"
    using f by (simp add: FetchByte_mono_def)
  have bb: "b AND 0xFF = b"
  proof -
    have w: "(0xFF :: u8) = - 1" by simp
    show ?thesis unfolding w by simp
  qed
  show ?thesis
    using bb by (simp add: ADD_SP_s8_mono_def f c1 Let_def flag_bits bit_simps reg_A_def
        sint_low_nibble sint_low_byte)
qed

text \<open>
  C9: \<open>ADD SP,s8\<close> sets Z = 0 and N = 0, H and C from the low nibble and the low
  byte, stores \<open>SP + s8\<close> and leaves every other register, in particular \<open>A\<close>,
  unchanged. In the single-file build, \<open>ADD SP,+8\<close> with \<open>A = 0x12\<close> ends with
  \<open>A = 0x00\<close>.
\<close>

theorem ADD_SP_s8_accumulator_lost:
  "reg_A (cpu sp_demo) = 0x12
   \<and> FetchByte_mono sp_demo = (0x08, sp_demo\<lparr>cpu := (cpu sp_demo)\<lparr>PC := 0x0152\<rparr>\<rparr>)
   \<and> SP (cpu (snd (ADD_SP_s8_mono sp_demo))) = 0x0000
   \<and> AF (cpu (snd (ADD_SP_s8_mono sp_demo))) = 0x0030
   \<and> reg_A (cpu (snd (ADD_SP_s8_mono sp_demo))) = 0x00"
  by (simp add: ADD_SP_s8_mono_def FetchByte_mono_def ReadMem_mono_def gated_def
      ppu_get_mode_def reg_A_def Let_def sp_demo_def
      power_on_def InitializePowerOnState_def zero_machine_def)

section \<open>\<open>HALT\<close> and the HALT bug\<close>

text \<open>
  \<open>HALT\<close> of \<open>hardware/cpu.c\<close>: with \<open>IME\<close> clear and \<open>IE & IF\<close> non-zero it sets
  \<open>halt_bug\<close> and does not touch \<open>halted\<close>.
\<close>

lemma HALT_halt_bug:
  assumes "\<not> IME (cpu s)" and "memory s IE_REG AND memory s IF_REG \<noteq> 0"
  shows "fst (HALT s) = 4 \<and> halt_bug (cpu (snd (HALT s)))
     \<and> halted (cpu (snd (HALT s))) = halted (cpu s)"
  using assms by (simp add: HALT_def Let_def)

text \<open>
  \<open>FetchByte\<close> of \<open>hardware/memory.c\<close>: with \<open>halt_bug\<close> set it reads the byte at \<open>PC\<close>,
  leaves \<open>PC\<close> where it is and clears \<open>halt_bug\<close>.
\<close>

lemma FetchByte_halt_bug:
  assumes "halt_bug (cpu s)"
  shows "fst (FetchByte s) = ReadMem s (PC (cpu s))
     \<and> PC (cpu (snd (FetchByte s))) = PC (cpu s)
     \<and> \<not> halt_bug (cpu (snd (FetchByte s)))"
  using assms by (simp add: FetchByte_def)

text \<open>\<open>HALT\<close> of the single-file build halts in every state.\<close>

lemma HALT_mono_always_halts:
  "fst (HALT_mono s) = 4 \<and> halted (cpu (snd (HALT_mono s)))
   \<and> halt_bug (cpu (snd (HALT_mono s))) = halt_bug (cpu s)"
  by (simp add: HALT_mono_def)

text \<open>
  C3: \<open>HALT\<close> with \<open>IME\<close> clear and \<open>IE & IF \<noteq> 0\<close> sets \<open>halt_bug\<close> and does not enter
  halted mode, and a fetch with \<open>halt_bug\<close> set reads at \<open>PC\<close> without incrementing it
  and clears \<open>halt_bug\<close>. In the single-file build, \<open>HALT\<close> in such a state enters
  halted mode and no \<open>halt_bug\<close> is recorded.
\<close>

theorem HALT_mono_no_halt_bug:
  "\<not> IME (cpu halt_demo)
   \<and> memory halt_demo IE_REG AND memory halt_demo IF_REG \<noteq> 0
   \<and> \<not> halted (cpu halt_demo)
   \<and> halted (cpu (snd (HALT_mono halt_demo)))
   \<and> \<not> halt_bug (cpu (snd (HALT_mono halt_demo)))"
  by (simp add: HALT_mono_def halt_demo_def power_on_def InitializePowerOnState_def
      zero_machine_def)

section \<open>The tick loop\<close>

text \<open>When \<open>handleInterrupts\<close> reports cycles, the CPU is not halted afterwards.\<close>

lemma handleInterrupts_service_wakes:
  "fst (handleInterrupts s) \<noteq> 0 \<Longrightarrow> \<not> halted (cpu (snd (handleInterrupts s)))"
  by (auto simp: handleInterrupts_def Let_def split: if_splits)

lemma handleInterrupts_cycles: "fst (handleInterrupts s) = 0 \<or> fst (handleInterrupts s) = 20"
  by (simp add: handleInterrupts_def Let_def)

text \<open>
  So \<open>cycles_executed\<close> never contains the cycles of \<open>handleInterrupts\<close>: it is 4 for a
  halted CPU and otherwise what the dispatched handler returns, because the \<open>else\<close>
  branch assigns (\<open>cycles_executed = instruction_table[opcode](&cpu)\<close>).
\<close>

lemma cpu_cycle_cycles:
  "fst (cpu_cycle tbl s) =
     (let s1 = snd (handleInterrupts s)
      in if halted (cpu s1) then 4
         else fst (tbl (fst (FetchByte s1)) (snd (FetchByte s1))))"
proof (cases "halted (cpu (snd (handleInterrupts s)))")
  case True
  then have "fst (handleInterrupts s) = 0" using handleInterrupts_service_wakes by blast
  then show ?thesis using True by (simp add: cpu_cycle_def Let_def split_beta)
next
  case False
  then show ?thesis by (simp add: cpu_cycle_def Let_def split_beta)
qed

text \<open>
  The PPU, the timer and the DMA are stepped by that one count, which is also what the
  frame counter receives.
\<close>

lemma tick_advance:
  "tick tbl s =
     (let c = fst (cpu_cycle tbl s); s1 = snd (cpu_cycle tbl s)
      in serial_tap (dma_step c (timer_step c (ppu_step c
           (s1\<lparr>cycles_this_frame := cycles_this_frame s1 + c\<rparr>)))))"
  by (simp add: tick_def Let_def split_beta)

lemma cycles_this_frame_ppu_step [simp]:
  "cycles_this_frame (ppu_step c s) = cycles_this_frame s"
  by (simp add: ppu_step_def Let_def next_line_def sub_cycles_def ppu_set_mode_def
      request_interrupt_def ppu_oam_scan_def ppu_scanline_def split: PPU_MODE.splits)

lemma cycles_this_frame_timer_step [simp]:
  "cycles_this_frame (timer_step c s) = cycles_this_frame s"
  by (simp add: timer_step_def timer_div_step_def Let_def split_beta)

lemma cycles_this_frame_dma_step [simp]:
  "cycles_this_frame (dma_step c s) = cycles_this_frame s"
  by (simp add: dma_step_def Let_def)

lemma cycles_this_frame_serial_tap [simp]:
  "cycles_this_frame (serial_tap s) = cycles_this_frame s"
  by (simp add: serial_tap_def)

lemma tick_frame_counter:
  "cycles_this_frame (tick tbl s) =
     cycles_this_frame (snd (cpu_cycle tbl s)) + fst (cpu_cycle tbl s)"
  by (simp add: tick_advance Let_def)

lemma irq_demo_service:
  "handleInterrupts irq_demo =
     (20, irq_demo\<lparr>cpu := (cpu irq_demo)\<lparr>IME := False, SP := 0xFFFC, PC := 0x0040\<rparr>,
                   memory := (memory irq_demo)(0xFFFC := 0x50, 0xFFFD := 0x01, IF_REG := 0x00)\<rparr>)"
  by (simp add: handleInterrupts_def ReadMem_def WriteMem_def gated_def ppu_get_mode_def Let_def
      irq_demo_def power_on_def InitializePowerOnState_def zero_machine_def)

text \<open>
  C1: on every iteration the PPU, the timer, the DMA and the frame counter advance by
  the same \<open>c\<close>, and \<open>c\<close> is the cycles of interrupt servicing plus 4 for a halted CPU
  or plus the cycles of the dispatched handler. When an interrupt is serviced before a
  \<open>NOP\<close>, \<open>handleInterrupts\<close> returns 20 and \<open>NOP\<close> returns 4, and the loop advances
  by 4, not by 24, whatever the other 255 slots of the table hold.
\<close>

theorem tick_drops_interrupt_cycles:
  "fst (handleInterrupts irq_demo) = 20
   \<and> \<not> halted (cpu (snd (handleInterrupts irq_demo)))
   \<and> fst (FetchByte (snd (handleInterrupts irq_demo))) = 0x00
   \<and> fst (NOP (snd (FetchByte (snd (handleInterrupts irq_demo))))) = 4
   \<and> fst (cpu_cycle (tbl(0x00 := NOP)) irq_demo) = 4
   \<and> cycles_this_frame (tick (tbl(0x00 := NOP)) irq_demo) = cycles_this_frame irq_demo + 4"
proof -
  have f: "fst (FetchByte (snd (handleInterrupts irq_demo))) = 0x00"
    unfolding irq_demo_service
    by (simp add: FetchByte_def ReadMem_def gated_def ppu_get_mode_def
        irq_demo_def power_on_def InitializePowerOnState_def zero_machine_def)
  have h: "\<not> halted (cpu (snd (handleInterrupts irq_demo)))"
    unfolding irq_demo_service
    by (simp add: irq_demo_def power_on_def InitializePowerOnState_def zero_machine_def)
  have c: "fst (cpu_cycle (tbl(0x00 := NOP)) irq_demo) = 4"
    using f h by (simp add: cpu_cycle_cycles Let_def NOP_def)
  have s: "cycles_this_frame (snd (cpu_cycle (tbl(0x00 := NOP)) irq_demo))
      = cycles_this_frame irq_demo"
    using f h by (simp add: cpu_cycle_def Let_def split_beta NOP_def irq_demo_service FetchByte_def)
  show ?thesis using f h c s by (simp add: irq_demo_service NOP_def tick_frame_counter)
qed

section \<open>\<open>PUSH rr\<close> and \<open>POP rr\<close>\<close>

lemma gated_vram_oam: "gated s a \<Longrightarrow> vram_oam a"
  by (auto simp: gated_def vram_oam_def Let_def)

lemma gated_cong:
  "memory s' 0xFF40 = memory s 0xFF40 \<Longrightarrow> memory s' 0xFF41 = memory s 0xFF41
   \<Longrightarrow> gated s' a = gated s a"
  by (simp add: gated_def ppu_get_mode_def)

lemma vram_oam_neighbours:
  assumes "vram_oam a"
  shows "a \<noteq> 0xFF40" "a \<noteq> 0xFF41" "a + 1 \<noteq> 0xFF40" "a + 1 \<noteq> 0xFF41"
    "a - 1 \<noteq> 0xFF40" "a - 1 \<noteq> 0xFF41"
proof -
  have r: "(0x8000 \<le> unat a \<and> unat a \<le> 0x9FFF) \<or> (0xFE00 \<le> unat a \<and> unat a \<le> 0xFE9F)"
    using assms by (simp add: vram_oam_def word_le_nat_alt)
  have "Suc (unat a) < 65536" using r by arith
  then have p: "unat (a + 1) = unat a + 1" by (simp add: unat_word_ariths)
  have "Suc 0 \<le> unat a" using r by arith
  then have "1 \<le> a" by (simp add: word_le_nat_alt)
  then have m: "unat (a - 1) = unat a - 1" by (simp add: unat_sub)
  show "a \<noteq> 0xFF40" "a \<noteq> 0xFF41" using r by auto
  show "a + 1 \<noteq> 0xFF40" "a + 1 \<noteq> 0xFF41" using r p by auto
  show "a - 1 \<noteq> 0xFF40" "a - 1 \<noteq> 0xFF41" using r m by auto
qed

lemma not_vram_oam_not_gated: "\<not> vram_oam a \<Longrightarrow> \<not> gated s a"
  using gated_vram_oam by blast

text \<open>Writing a stack slot or its neighbour does not close the gate of the slot.\<close>

lemma gated_after_store:
  assumes g: "\<not> gated s a"
    and m: "memory s' = (memory s)(b := d) \<or> memory s' = (memory s)(b := d, b' := d')"
    and nb: "b = a \<or> b = a + 1 \<or> b = a - 1" "b' = a \<or> b' = a + 1 \<or> b' = a - 1"
  shows "\<not> gated s' a"
proof (cases "vram_oam a")
  case False
  then show ?thesis by (rule not_vram_oam_not_gated)
next
  case True
  have "b \<noteq> 0xFF40 \<and> b \<noteq> 0xFF41 \<and> b' \<noteq> 0xFF40 \<and> b' \<noteq> 0xFF41"
    using vram_oam_neighbours [OF True] nb by auto
  then have "memory s' 0xFF40 = memory s 0xFF40 \<and> memory s' 0xFF41 = memory s 0xFF41"
    using m by auto
  then show ?thesis using g gated_cong by blast
qed

lemma ReadMem_mono_cpu [simp]: "ReadMem_mono (s\<lparr>cpu := c\<rparr>) a = ReadMem_mono s a"
  by (simp add: ReadMem_mono_def gated_def ppu_get_mode_def read_P1_def)

lemma gated_cpu [simp]: "gated (s\<lparr>cpu := c\<rparr>) a = gated s a"
  by (simp add: gated_def ppu_get_mode_def)

lemma push_byte_mono_ok:
  assumes "\<not> gated s (SP (cpu s) - 1)" "SP (cpu s) - 1 \<noteq> 0xFF04"
  shows "cpu (push_byte_mono d s) = (cpu s)\<lparr>SP := SP (cpu s) - 1\<rparr>"
    and "memory (push_byte_mono d s) = (memory s)(SP (cpu s) - 1 := d)"
    and "boot_rom_enabled (push_byte_mono d s) \<Longrightarrow> boot_rom_enabled s"
    and "boot (push_byte_mono d s) = boot s"
    and "joypad (push_byte_mono d s) = joypad s"
  using assms by (simp_all add: push_byte_mono_def WriteMem_mono_def Let_def split: if_splits)

lemma push2_state:
  fixes s :: machine and hi lo :: u8
  assumes ok1: "stack_slot_ok_mono s (SP (cpu s) - 1)" and ok2: "stack_slot_ok_mono s (SP (cpu s) - 2)"
  defines "s2 \<equiv> push_byte_mono lo (push_byte_mono hi s)"
  shows "cpu s2 = (cpu s)\<lparr>SP := SP (cpu s) - 2\<rparr>"
    and "ReadMem_mono s2 (SP (cpu s) - 2) = lo"
    and "ReadMem_mono s2 (SP (cpu s) - 1) = hi"
proof -
  let ?a1 = "SP (cpu s) - 1" and ?a2 = "SP (cpu s) - 2"
  let ?s1 = "push_byte_mono hi s"
  have a21: "?a2 = ?a1 - 1" by simp
  have ne: "?a2 \<noteq> ?a1" by simp
  have g1: "\<not> gated s ?a1" "?a1 \<noteq> 0xFF04" "?a1 \<noteq> 0xFF00" "\<not> (boot_rom_enabled s \<and> ?a1 < 0x0100)"
    using ok1 by (simp_all add: stack_slot_ok_mono_def)
  have g2: "\<not> gated s ?a2" "?a2 \<noteq> 0xFF04" "?a2 \<noteq> 0xFF00" "\<not> (boot_rom_enabled s \<and> ?a2 < 0x0100)"
    using ok2 by (simp_all add: stack_slot_ok_mono_def)
  note p1 = push_byte_mono_ok [OF g1(1) g1(2), of hi]
  have sp1: "SP (cpu ?s1) - 1 = ?a2" by (simp add: p1(1))
  have g12: "\<not> gated ?s1 ?a2"
    by (rule gated_after_store [OF g2(1), where b = ?a1 and d = hi and b' = ?a1 and d' = hi])
       (simp_all add: p1(2))
  note p2 = push_byte_mono_ok [of ?s1 lo, unfolded sp1, OF g12 g2(2)]
  show c: "cpu s2 = (cpu s)\<lparr>SP := SP (cpu s) - 2\<rparr>"
    by (simp add: s2_def p2(1) p1(1))
  have mem: "memory s2 = (memory s)(?a1 := hi, ?a2 := lo)"
    by (simp add: s2_def p2(2) p1(2))
  have boot2: "boot_rom_enabled s2 \<Longrightarrow> boot_rom_enabled s"
    using p2(3) p1(3) by (auto simp: s2_def)
  have ng2: "\<not> gated s2 ?a2"
    by (rule gated_after_store [OF g2(1), where b = ?a1 and d = hi and b' = ?a2 and d' = lo])
       (simp_all add: mem)
  have ng1: "\<not> gated s2 ?a1"
    by (rule gated_after_store [OF g1(1), where b = ?a1 and d = hi and b' = ?a2 and d' = lo])
       (simp_all add: mem)
  show "ReadMem_mono s2 ?a2 = lo"
    using ng2 g2 boot2 by (auto simp: ReadMem_mono_def mem)
  show "ReadMem_mono s2 ?a1 = hi"
    using ng1 g1 boot2 ne by (auto simp: ReadMem_mono_def mem)
qed

lemma pair_join:
  "(ucast (ucast ((x :: u16) AND 0x00FF) :: u8) AND 0x00FF)
     OR push_bit 8 (ucast (ucast (drop_bit 8 x) :: u8)) = x"
proof -
  have m: "(0x00FF :: u16) = mask 8" by (simp add: mask_eq_exp_minus_1)
  show ?thesis unfolding m
    by (rule bit_word_eqI) (auto simp: bit_simps)
qed

lemma AF_join:
  "push_bit 8 (ucast (ucast (drop_bit 8 (x :: u16)) :: u8))
     OR ucast ((ucast (x AND 0x00F0) :: u8) AND 0xF0) = x AND 0xFFF0"
proof -
  have m: "(0x00F0 :: u16) = push_bit 4 (mask 4)" "(0xF0 :: u8) = push_bit 4 (mask 4)"
    "(0xFFF0 :: u16) = push_bit 4 (mask 12)"
    by (simp_all add: mask_eq_exp_minus_1)
  show ?thesis unfolding m
  proof (rule bit_word_eqI)
    fix n assume n: "n < LENGTH(16)"
    show "bit ((push_bit 8 (ucast (ucast (drop_bit 8 x) :: u8)) :: u16)
               OR ucast ((ucast (x AND push_bit 4 (mask 4)) :: u8) AND push_bit 4 (mask 4))) n
        = bit (x AND push_bit 4 (mask 12)) n"
    proof (cases "n < 8")
      case True
      then show ?thesis by (auto simp: bit_simps)
    next
      case False
      then have "8 + (n - 8) = n" by simp
      then show ?thesis using False n by (auto simp: bit_simps)
    qed
  qed
qed

lemma low_nibble_clear:
  "(push_bit 8 (ucast (a :: u8)) OR ucast ((f :: u8) AND 0xF0)) AND (0x000F :: u16) = 0"
proof -
  have m: "(0xF0 :: u8) = push_bit 4 (mask 4)" "(0x000F :: u16) = mask 4"
    by (simp_all add: mask_eq_exp_minus_1)
  show ?thesis unfolding m
    by (rule bit_word_eqI) (auto simp: bit_simps)
qed

text \<open>
  C7, amended: for every register pair and every machine state, \<open>PUSH rr\<close> followed by
  \<open>POP rr\<close> leaves \<open>SP\<close> unchanged, and \<open>POP AF\<close> always forces the low nibble of \<open>F\<close> to
  zero; in every state whose two stack slots \<open>SP - 1\<close> and \<open>SP - 2\<close> read back what is
  written to them, \<open>PUSH rr\<close> followed by \<open>POP rr\<close> also leaves \<open>rr\<close> unchanged (for \<open>AF\<close>,
  up to the low nibble of \<open>F\<close>, which becomes zero).
\<close>

theorem PUSH_POP_mono_roundtrip:
  "SP (cpu (snd (POP_BC_mono (snd (PUSH_BC_mono s))))) = SP (cpu s)
   \<and> SP (cpu (snd (POP_DE_mono (snd (PUSH_DE_mono s))))) = SP (cpu s)
   \<and> SP (cpu (snd (POP_HL_mono (snd (PUSH_HL_mono s))))) = SP (cpu s)
   \<and> SP (cpu (snd (POP_AF_mono (snd (PUSH_AF_mono s))))) = SP (cpu s)
   \<and> AF (cpu (snd (POP_AF_mono s))) AND 0x000F = 0
   \<and> (stack_slot_ok_mono s (SP (cpu s) - 1) \<and> stack_slot_ok_mono s (SP (cpu s) - 2) \<longrightarrow>
        BC (cpu (snd (POP_BC_mono (snd (PUSH_BC_mono s))))) = BC (cpu s)
        \<and> DE (cpu (snd (POP_DE_mono (snd (PUSH_DE_mono s))))) = DE (cpu s)
        \<and> HL (cpu (snd (POP_HL_mono (snd (PUSH_HL_mono s))))) = HL (cpu s)
        \<and> AF (cpu (snd (POP_AF_mono (snd (PUSH_AF_mono s))))) = AF (cpu s) AND 0xFFF0)"
proof (intro conjI impI)
  have cw: "cpu (WriteMem_mono a d t) = cpu t" for a d t
    by (simp add: WriteMem_mono_def Let_def)
  have sp: "SP (cpu (push_byte_mono lo (push_byte_mono hi s))) = SP (cpu s) - 2" for hi lo
    by (simp add: push_byte_mono_def Let_def cw)
  have cpu2: "cpu (push_byte_mono lo (push_byte_mono hi s)) = (cpu s)\<lparr>SP := SP (cpu s) - 2\<rparr>"
    for hi lo
    by (simp add: push_byte_mono_def Let_def cw)
  show "SP (cpu (snd (POP_BC_mono (snd (PUSH_BC_mono s))))) = SP (cpu s)"
    by (simp add: POP_BC_mono_def PUSH_BC_mono_def pop_byte_mono_def Let_def sp)
  show "SP (cpu (snd (POP_DE_mono (snd (PUSH_DE_mono s))))) = SP (cpu s)"
    by (simp add: POP_DE_mono_def PUSH_DE_mono_def pop_byte_mono_def Let_def sp)
  show "SP (cpu (snd (POP_HL_mono (snd (PUSH_HL_mono s))))) = SP (cpu s)"
    by (simp add: POP_HL_mono_def PUSH_HL_mono_def pop_byte_mono_def Let_def sp)
  show "SP (cpu (snd (POP_AF_mono (snd (PUSH_AF_mono s))))) = SP (cpu s)"
    by (simp add: POP_AF_mono_def PUSH_AF_mono_def pop_byte_mono_def Let_def sp)
  show "AF (cpu (snd (POP_AF_mono s))) AND 0x000F = 0"
    by (simp add: POP_AF_mono_def pop_byte_mono_def Let_def low_nibble_clear)
next
  assume ok: "stack_slot_ok_mono s (SP (cpu s) - 1) \<and> stack_slot_ok_mono s (SP (cpu s) - 2)"
  note st = push2_state [OF ok [THEN conjunct1] ok [THEN conjunct2]]
  have cw: "cpu (WriteMem_mono a d t) = cpu t" for a d t
    by (simp add: WriteMem_mono_def Let_def)
  have c1: "cpu (push_byte_mono d s) = (cpu s)\<lparr>SP := SP (cpu s) - 1\<rparr>" for d
    by (simp add: push_byte_mono_def Let_def cw)
  have a1: "SP (cpu s) - 2 + 1 = SP (cpu s) - 1" by simp
  show "BC (cpu (snd (POP_BC_mono (snd (PUSH_BC_mono s))))) = BC (cpu s)"
    by (simp add: POP_BC_mono_def PUSH_BC_mono_def pop_byte_mono_def Let_def st c1 a1 pair_join)
  show "DE (cpu (snd (POP_DE_mono (snd (PUSH_DE_mono s))))) = DE (cpu s)"
    by (simp add: POP_DE_mono_def PUSH_DE_mono_def pop_byte_mono_def Let_def st c1 a1 pair_join)
  show "HL (cpu (snd (POP_HL_mono (snd (PUSH_HL_mono s))))) = HL (cpu s)"
    by (simp add: POP_HL_mono_def PUSH_HL_mono_def pop_byte_mono_def Let_def st c1 a1 pair_join)
  show "AF (cpu (snd (POP_AF_mono (snd (PUSH_AF_mono s))))) = AF (cpu s) AND 0xFFF0"
    by (simp add: POP_AF_mono_def PUSH_AF_mono_def pop_byte_mono_def Let_def st c1 a1 AF_join)
qed

text \<open>
  C7, as stated, quantifies over every machine state. With the LCD on, the PPU in
  mode 3 and \<open>SP = 0x9000\<close>, both pushes are dropped by the VRAM gate and both pops read
  \<open>0xFF\<close>: \<open>BC = 0x1234\<close> comes back as \<open>0xFFFF\<close>.
\<close>

theorem PUSH_POP_mono_gated_counterexample:
  "BC (cpu (snd (POP_BC_mono (snd (PUSH_BC_mono vram_demo))))) \<noteq> BC (cpu vram_demo)"
  by (simp add: POP_BC_mono_def PUSH_BC_mono_def pop_byte_mono_def push_byte_mono_def
      WriteMem_mono_def ReadMem_mono_def gated_def ppu_get_mode_def Let_def vram_demo_def
      power_on_def InitializePowerOnState_def zero_machine_def)

lemma wram_demo_regs:
  "AF (cpu wram_demo) = 0x12FF \<and> BC (cpu wram_demo) = 0x1234 \<and> DE (cpu wram_demo) = 0x5678
   \<and> HL (cpu wram_demo) = 0x9ABC \<and> SP (cpu wram_demo) = 0xD000"
  by (simp add: wram_demo_def)

lemma wram_demo_slots:
  "stack_slot_ok_mono wram_demo 0xCFFF \<and> stack_slot_ok_mono wram_demo 0xCFFE"
  by (simp add: stack_slot_ok_mono_def gated_def ppu_get_mode_def wram_demo_def)

theorem PUSH_POP_mono_roundtrip_witness:
  "stack_slot_ok_mono wram_demo (SP (cpu wram_demo) - 1)
   \<and> stack_slot_ok_mono wram_demo (SP (cpu wram_demo) - 2)
   \<and> BC (cpu (snd (POP_BC_mono (snd (PUSH_BC_mono wram_demo))))) = 0x1234
   \<and> DE (cpu (snd (POP_DE_mono (snd (PUSH_DE_mono wram_demo))))) = 0x5678
   \<and> HL (cpu (snd (POP_HL_mono (snd (PUSH_HL_mono wram_demo))))) = 0x9ABC
   \<and> AF (cpu (snd (POP_AF_mono (snd (PUSH_AF_mono wram_demo))))) = 0x12F0
   \<and> SP (cpu (snd (POP_AF_mono (snd (PUSH_AF_mono wram_demo))))) = 0xD000"
  using PUSH_POP_mono_roundtrip [of wram_demo] wram_demo_slots
  by (simp add: wram_demo_regs)

section \<open>\<open>PUSH rr\<close> and \<open>POP rr\<close> in the modular build\<close>

lemma ReadMem_cpu [simp]: "ReadMem (s\<lparr>cpu := c\<rparr>) a = ReadMem s a"
  by (auto simp: ReadMem_def read_P1_def)

lemma push_byte_ok:
  assumes "\<not> gated s (SP (cpu s) - 1)" "SP (cpu s) - 1 \<noteq> 0xFF04" "SP (cpu s) - 1 \<noteq> 0xFF46"
  shows "cpu (push_byte d s) = (cpu s)\<lparr>SP := SP (cpu s) - 1\<rparr>"
    and "memory (push_byte d s) = (memory s)(SP (cpu s) - 1 := d)"
    and "boot_rom_enabled (push_byte d s) \<Longrightarrow> boot_rom_enabled s"
    and "dma (push_byte d s) = dma s"
    and "DEBUG_TEST_LOG (push_byte d s) = DEBUG_TEST_LOG s"
  using assms by (simp_all add: push_byte_def WriteMem_def Let_def split: if_splits)

lemma push2_state_modular:
  fixes s :: machine and hi lo :: u8
  assumes ok1: "stack_slot_ok s (SP (cpu s) - 1)" and ok2: "stack_slot_ok s (SP (cpu s) - 2)"
  defines "s2 \<equiv> push_byte lo (push_byte hi s)"
  shows "cpu s2 = (cpu s)\<lparr>SP := SP (cpu s) - 2\<rparr>"
    and "ReadMem s2 (SP (cpu s) - 2) = lo"
    and "ReadMem s2 (SP (cpu s) - 1) = hi"
proof -
  let ?a1 = "SP (cpu s) - 1" and ?a2 = "SP (cpu s) - 2"
  let ?s1 = "push_byte hi s"
  have ne: "?a2 \<noteq> ?a1" by simp
  have g1: "\<not> gated s ?a1" "?a1 \<noteq> 0xFF04" "?a1 \<noteq> 0xFF00"
    "\<not> (boot_rom_enabled s \<and> ?a1 < 0x0100)" "?a1 \<noteq> 0xFF46"
    "\<not> (DEBUG_TEST_LOG s \<and> ?a1 = 0xFF44)"
    "dma_running (dma s) \<longrightarrow> \<not> (?a1 < 0xFF80 \<or> ?a1 > 0xFFFE)"
    using ok1 by (auto simp: stack_slot_ok_def stack_slot_ok_mono_def)
  have g2: "\<not> gated s ?a2" "?a2 \<noteq> 0xFF04" "?a2 \<noteq> 0xFF00"
    "\<not> (boot_rom_enabled s \<and> ?a2 < 0x0100)" "?a2 \<noteq> 0xFF46"
    "\<not> (DEBUG_TEST_LOG s \<and> ?a2 = 0xFF44)"
    "dma_running (dma s) \<longrightarrow> \<not> (?a2 < 0xFF80 \<or> ?a2 > 0xFFFE)"
    using ok2 by (auto simp: stack_slot_ok_def stack_slot_ok_mono_def)
  note p1 = push_byte_ok [OF g1(1) g1(2) g1(5), of hi]
  have sp1: "SP (cpu ?s1) - 1 = ?a2" by (simp add: p1(1))
  have g12: "\<not> gated ?s1 ?a2"
    by (rule gated_after_store [OF g2(1), where b = ?a1 and d = hi and b' = ?a1 and d' = hi])
       (simp_all add: p1(2))
  note p2 = push_byte_ok [of ?s1 lo, unfolded sp1, OF g12 g2(2) g2(5)]
  show c: "cpu s2 = (cpu s)\<lparr>SP := SP (cpu s) - 2\<rparr>"
    by (simp add: s2_def p2(1) p1(1))
  have mem: "memory s2 = (memory s)(?a1 := hi, ?a2 := lo)"
    by (simp add: s2_def p2(2) p1(2))
  have boot2: "boot_rom_enabled s2 \<Longrightarrow> boot_rom_enabled s"
    using p2(3) p1(3) by (auto simp: s2_def)
  have dma2: "dma s2 = dma s" by (simp add: s2_def p2(4) p1(4))
  have dbg2: "DEBUG_TEST_LOG s2 = DEBUG_TEST_LOG s" by (simp add: s2_def p2(5) p1(5))
  have ng2: "\<not> gated s2 ?a2"
    by (rule gated_after_store [OF g2(1), where b = ?a1 and d = hi and b' = ?a2 and d' = lo])
       (simp_all add: mem)
  have ng1: "\<not> gated s2 ?a1"
    by (rule gated_after_store [OF g1(1), where b = ?a1 and d = hi and b' = ?a2 and d' = lo])
       (simp_all add: mem)
  show "ReadMem s2 ?a2 = lo"
    using ng2 g2 boot2 by (auto simp: ReadMem_def mem dma2 dbg2)
  show "ReadMem s2 ?a1 = hi"
    using ng1 g1 boot2 ne by (auto simp: ReadMem_def mem dma2 dbg2)
qed

text \<open>
  The round trip of C7 for the handlers of \<open>hardware/cpu.c\<close> on the bus of
  \<open>hardware/memory.c\<close>, under the conditions on the two stack slots that this bus adds.
\<close>

lemma PUSH_POP_roundtrip:
  "SP (cpu (snd (POP_BC (snd (PUSH_BC s))))) = SP (cpu s)
   \<and> SP (cpu (snd (POP_DE (snd (PUSH_DE s))))) = SP (cpu s)
   \<and> SP (cpu (snd (POP_HL (snd (PUSH_HL s))))) = SP (cpu s)
   \<and> SP (cpu (snd (POP_AF (snd (PUSH_AF s))))) = SP (cpu s)
   \<and> AF (cpu (snd (POP_AF s))) AND 0x000F = 0
   \<and> (stack_slot_ok s (SP (cpu s) - 1) \<and> stack_slot_ok s (SP (cpu s) - 2) \<longrightarrow>
        BC (cpu (snd (POP_BC (snd (PUSH_BC s))))) = BC (cpu s)
        \<and> DE (cpu (snd (POP_DE (snd (PUSH_DE s))))) = DE (cpu s)
        \<and> HL (cpu (snd (POP_HL (snd (PUSH_HL s))))) = HL (cpu s)
        \<and> AF (cpu (snd (POP_AF (snd (PUSH_AF s))))) = AF (cpu s) AND 0xFFF0)"
proof (intro conjI impI)
  have sp: "SP (cpu (push_byte lo (push_byte hi s))) = SP (cpu s) - 2" for hi lo
    by (simp add: push_byte_def Let_def)
  show "SP (cpu (snd (POP_BC (snd (PUSH_BC s))))) = SP (cpu s)"
    by (simp add: POP_BC_def PUSH_BC_def pop_byte_def Let_def sp)
  show "SP (cpu (snd (POP_DE (snd (PUSH_DE s))))) = SP (cpu s)"
    by (simp add: POP_DE_def PUSH_DE_def pop_byte_def Let_def sp)
  show "SP (cpu (snd (POP_HL (snd (PUSH_HL s))))) = SP (cpu s)"
    by (simp add: POP_HL_def PUSH_HL_def pop_byte_def Let_def sp)
  show "SP (cpu (snd (POP_AF (snd (PUSH_AF s))))) = SP (cpu s)"
    by (simp add: POP_AF_def PUSH_AF_def pop_byte_def Let_def sp)
  show "AF (cpu (snd (POP_AF s))) AND 0x000F = 0"
    by (simp add: POP_AF_def pop_byte_def Let_def low_nibble_clear)
next
  assume ok: "stack_slot_ok s (SP (cpu s) - 1) \<and> stack_slot_ok s (SP (cpu s) - 2)"
  note st = push2_state_modular [OF ok [THEN conjunct1] ok [THEN conjunct2]]
  have c1: "cpu (push_byte d s) = (cpu s)\<lparr>SP := SP (cpu s) - 1\<rparr>" for d
    by (simp add: push_byte_def Let_def)
  have a1: "SP (cpu s) - 2 + 1 = SP (cpu s) - 1" by simp
  show "BC (cpu (snd (POP_BC (snd (PUSH_BC s))))) = BC (cpu s)"
    by (simp add: POP_BC_def PUSH_BC_def pop_byte_def Let_def st c1 a1 pair_join)
  show "DE (cpu (snd (POP_DE (snd (PUSH_DE s))))) = DE (cpu s)"
    by (simp add: POP_DE_def PUSH_DE_def pop_byte_def Let_def st c1 a1 pair_join)
  show "HL (cpu (snd (POP_HL (snd (PUSH_HL s))))) = HL (cpu s)"
    by (simp add: POP_HL_def PUSH_HL_def pop_byte_def Let_def st c1 a1 pair_join)
  show "AF (cpu (snd (POP_AF (snd (PUSH_AF s))))) = AF (cpu s) AND 0xFFF0"
    by (simp add: POP_AF_def PUSH_AF_def pop_byte_def Let_def st c1 a1 AF_join)
qed

end
